theory Spec2Isabelle
  imports Complex_Main "HOL-Library.Sublist" "HOL-Library.Char_ord" "HOL-Library.List_Lexorder"
begin

section \<open>Scout engine (run\_web.py): measure competition and financial metrics\<close>

text \<open>
  A shallow embedding of the parts of \<^verbatim>\<open>src/run_web.py\<close> that carry the financial metrics
  (\<^verbatim>\<open>Engine.metric_update\<close>, \<^verbatim>\<open>Engine.payback\<close>), the market-share models
  (\<^verbatim>\<open>Engine.compete_res_primary\<close>, \<^verbatim>\<open>Engine.compete_com_primary\<close>,
  \<^verbatim>\<open>Engine.find_added_sbmkt_fracs\<close>), the adjustment primitive
  (\<^verbatim>\<open>Engine.compete_adj\<close>), the key ordering of \<^verbatim>\<open>Engine.compete_measures\<close> and the
  breakout walk (\<^verbatim>\<open>Engine.out_break_walk\<close>).

  Python floats are modelled as \<^typ>\<open>real\<close>: rounding, overflow, NaN and infinities are outside
  the model, except in \<open>metric_update_fl\<close>, where a result may be an infinity or a NaN. Python exceptions are values of type \<open>error\<close>, returned as \<open>Inl\<close>. Quantities are
  point values unless a definition says that it handles an array of samples; on an array
  numpy applies the same arithmetic to every sample.
\<close>

datatype error = IndexError | KeyError | ZeroDivisionError | TypeError | ValueError

subsection \<open>Simple payback (\<^verbatim>\<open>Engine.payback\<close>, lines 1185-1240)\<close>

text \<open>
  The \<^verbatim>\<open>for cashflow in cashflows\<close> loop: \<open>tot\<close> is the running total, \<open>years\<close> counts every
  iteration in which the running total is below the investment, \<open>cumulative\<close> collects the
  running totals.
\<close>

fun payback_loop :: "real \<Rightarrow> real list \<Rightarrow> real \<Rightarrow> nat \<Rightarrow> real list \<Rightarrow> nat \<times> real list" where
  "payback_loop investment [] tot years cumulative = (years, cumulative)"
| "payback_loop investment (cashflow # rest) tot years cumulative =
     (let tot' = tot + cashflow;
          years' = (if tot' < investment then years + 1 else years)
      in payback_loop investment rest tot' years' (cumulative @ [tot']))"

text \<open>
  \<^verbatim>\<open>list(cashflows[1:]) + [cashflows[-1]] * (100 - len(cashflows[1:]))\<close>; a list times a
  negative number is empty in Python, as \<open>replicate\<close> with the truncated difference is here.
\<close>

definition extend_cashflows :: "real list \<Rightarrow> real list" where
  "extend_cashflows cashflows =
     tl cashflows @ replicate (100 - length (tl cashflows)) (last cashflows)"

text \<open>
  \<^verbatim>\<open>cashflows[0]\<close> raises IndexError on an empty sequence; \<^verbatim>\<open>b / c\<close> raises
  ZeroDivisionError on plain Python numbers when \<open>c\<close> is zero.
\<close>

definition payback :: "real list \<Rightarrow> error + real" where
  "payback cashflows =
     (if cashflows = [] then Inl IndexError
      else
        let investment = hd cashflows;
            flows = extend_cashflows cashflows
        in if investment \<ge> 0 then Inr 0
           else
             let investment = \<bar>investment\<bar>;
                 (years, cumulative) = payback_loop investment flows 0 0 []
             in if years < length flows then
                  let a = real years;
                      b = (if years = 0 then investment
                           else investment - cumulative ! (years - 1));
                      c = (if years = 0 then cumulative ! 0
                           else cumulative ! years - cumulative ! (years - 1))
                  in if c = 0 then Inl ZeroDivisionError else Inr (a + b / c)
                else Inr 999)"

text \<open>
  The payback algorithm as the specification words it: walk forward accumulating the cash
  flows until the cumulative sum reaches the investment, then interpolate linearly within
  that crossing year; \<open>None\<close> when the investment is never recovered.
\<close>

fun spec_payback_walk :: "real \<Rightarrow> real list \<Rightarrow> real \<Rightarrow> nat \<Rightarrow> real option" where
  "spec_payback_walk investment [] tot n = None"
| "spec_payback_walk investment (cashflow # rest) tot n =
     (if tot + cashflow \<ge> investment then Some (real n + (investment - tot) / cashflow)
      else spec_payback_walk investment rest (tot + cashflow) (n + 1))"

definition spec_payback :: "real list \<Rightarrow> real" where
  "spec_payback cashflows =
     (if hd cashflows \<ge> 0 then 0
      else case spec_payback_walk \<bar>hd cashflows\<bar> (extend_cashflows cashflows) 0 0 of
             None \<Rightarrow> 999
           | Some p \<Rightarrow> p)"

text \<open>Running totals of a list of cash flows, starting from \<open>tot\<close>.\<close>

fun cumsum :: "real \<Rightarrow> real list \<Rightarrow> real list" where
  "cumsum tot [] = []"
| "cumsum tot (x # xs) = (tot + x) # cumsum (tot + x) xs"

subsection \<open>Financial metrics (\<^verbatim>\<open>Engine.metric_update\<close>, lines 909-1183)\<close>

text \<open>
  \<^verbatim>\<open>numpy.npv(rate, values)\<close> is library code (numpy before 1.20); by its documentation it is
  the sum over \<open>t\<close> of \<open>values[t] / (1 + rate) ^ t\<close>, with \<open>t\<close> starting at 0.
\<close>

fun npv_from :: "real \<Rightarrow> nat \<Rightarrow> real list \<Rightarrow> real" where
  "npv_from rate t [] = 0"
| "npv_from rate t (v # vs) = v / (1 + rate) ^ t + npv_from rate (t + 1) vs"

definition npv :: "real \<Rightarrow> real list \<Rightarrow> real" where
  "npv rate vals = npv_from rate 0 vals"

text \<open>\<^verbatim>\<open>UsefulVars\<close>: the general discount rate and the seven commercial discount-rate tiers.\<close>

definition discount_rate :: real where
  "discount_rate = 7 / 100"

definition com_timeprefs_rates :: "real list" where
  "com_timeprefs_rates = [10, 1, 45 / 100, 25 / 100, 15 / 100, 65 / 1000, 0]"

definition res_bldg_types :: "string list" where
  "res_bldg_types = [''single family home'', ''multi family home'', ''mobile home'']"

text \<open>The attributes of a \<^verbatim>\<open>Measure\<close> object that \<^verbatim>\<open>metric_update\<close> reads.\<close>

record measure =
  end_use_primary :: "string list"
  measure_type :: string
  technology_type_primary :: string
  bldg_type :: "string list"
  update_results_consumer_metrics :: bool

text \<open>
  The commercial unit cost is a dict with one entry per discount-rate tier
  (\<^verbatim>\<open>"rate 1"\<close> to \<^verbatim>\<open>"rate 7"\<close>, here a list in tier order), or the number 999 set by the
  \<^verbatim>\<open>except ValueError\<close> branch when a net present value is not finite. Over the reals every
  net present value is finite (\<open>1 + rate\<close> is positive for the seven tiers), so the embedding
  of \<^verbatim>\<open>metric_update\<close> below never takes that branch.
\<close>

datatype com_unit_cost = ComRates "real list" | ComSentinel

text \<open>The 14 returned values; \<open>None\<close> is Python's \<^verbatim>\<open>None\<close>.\<close>

record metrics =
  unit_cost_s_res :: "real option"
  unit_cost_e_res :: "real option"
  unit_cost_c_res :: "real option"
  unit_cost_s_com :: "com_unit_cost option"
  unit_cost_e_com :: "com_unit_cost option"
  unit_cost_c_com :: "com_unit_cost option"
  irr_e :: "real option"
  irr_ec :: "real option"
  payback_e :: "real option"
  payback_ec :: "real option"
  cce :: real
  cce_bens :: real
  ccc :: real
  ccc_bens :: real

text \<open>
  Lines 973-982. The measure and baseline lifetimes arrive as Python ints
  (\<^verbatim>\<open>int(round(...))\<close> at the call sites); \<^verbatim>\<open>i % life_base\<close> raises ZeroDivisionError
  when \<open>life_base\<close> is 0.
\<close>

definition lighting_gain_applies :: "measure \<Rightarrow> int \<Rightarrow> int \<Rightarrow> bool" where
  "lighting_gain_applies m life_base life_meas \<longleftrightarrow>
     life_meas > life_base \<and> ''lighting'' \<in> set (end_use_primary m) \<and>
     measure_type m = ''full service'' \<and> technology_type_primary m = ''supply''"

definition added_stockcost_gain_yrs :: "measure \<Rightarrow> int \<Rightarrow> int \<Rightarrow> error + int list" where
  "added_stockcost_gain_yrs m life_base life_meas =
     (if lighting_gain_applies m life_base life_meas then
        (if life_base = 0 \<and> [1..life_meas - 1] \<noteq> [] then Inl ZeroDivisionError
         else Inr (map (\<lambda>i. i - 1) (filter (\<lambda>i. i mod life_base = 0) [1..life_meas - 1])))
      else Inr [])"

text \<open>Lines 993-1008: the capital cash flows, the upfront cost followed by one entry per year.\<close>

definition cashflows_s :: "real \<Rightarrow> real \<Rightarrow> int list \<Rightarrow> int \<Rightarrow> real list" where
  "cashflows_s upfront scost_base gain_yrs life_meas =
     upfront # map (\<lambda>life_yr. if life_yr \<in> set gain_yrs then scost_base else 0)
                   [0..life_meas - 1]"

text \<open>\<^verbatim>\<open>numpy.append(0, [x] * life_meas)\<close>.\<close>

definition cashflows_const :: "real \<Rightarrow> int \<Rightarrow> real list" where
  "cashflows_const x life_meas = 0 # replicate (nat life_meas) x"

text \<open>
  Lines 1132-1152. \<^verbatim>\<open>numpy.irr\<close> is library code (a polynomial root finder) and is a
  parameter here: \<open>None\<close> stands for a result that is not finite, which the code replaces with
  999. The \<^verbatim>\<open>except (ValueError, LinAlgError)\<close> around \<^verbatim>\<open>payback\<close> does not catch an
  IndexError or a ZeroDivisionError, which therefore leave \<^verbatim>\<open>metric_update\<close>. (On numpy
  floats a division by zero gives an infinity or a NaN with a warning instead of the
  exception; either way no number results.)
\<close>

definition irr_or_sentinel :: "(real list \<Rightarrow> real option) \<Rightarrow> real list \<Rightarrow> real" where
  "irr_or_sentinel irr cashflows = (case irr cashflows of None \<Rightarrow> 999 | Some r \<Rightarrow> r)"

definition metric_update ::
  "(real list \<Rightarrow> real option) \<Rightarrow> measure \<Rightarrow> int \<Rightarrow> int \<Rightarrow> real \<Rightarrow> real \<Rightarrow> real \<Rightarrow> real \<Rightarrow>
     real \<Rightarrow> real \<Rightarrow> real \<Rightarrow> real \<Rightarrow> real \<Rightarrow> error + metrics" where
  "metric_update irr m life_base life_meas0 scost_base scost_meas_delt esave ecostsave
       csave ccostsave scost_meas ecost_meas ccost_meas =
     (case added_stockcost_gain_yrs m life_base life_meas0 of
        Inl e \<Rightarrow> Inl e
      | Inr gain_yrs \<Rightarrow>
         let life_meas = (if life_meas0 < 1 then 1 else life_meas0);
             cashflows_s_delt = cashflows_s scost_meas_delt scost_base gain_yrs life_meas;
             cashflows_s_tot = cashflows_s scost_meas scost_base gain_yrs life_meas;
             cashflows_e_delt = cashflows_const ecostsave life_meas;
             cashflows_c_delt = cashflows_const ccostsave life_meas;
             cashflows_e_tot = cashflows_const ecost_meas life_meas;
             cashflows_c_tot = cashflows_const ccost_meas life_meas;
             npv_s_delt = npv discount_rate cashflows_s_delt;
             npv_e_delt = npv discount_rate cashflows_e_delt;
             npv_c_delt = npv discount_rate cashflows_c_delt;
             esave_array = cashflows_const esave life_meas;
             csave_array = cashflows_const csave life_meas;
             npv_esave = npv discount_rate esave_array;
             npv_csave = npv discount_rate csave_array;
             (cce_v, cce_bens_v) =
               (if npv_esave > 0
                then (- npv_s_delt / npv_esave, - (npv_s_delt + npv_c_delt) / npv_esave)
                else (999, 999));
             (ccc_v, ccc_bens_v) =
               (if npv_csave > 0
                then (- npv_s_delt / (npv_csave * 1000000),
                      - (npv_s_delt + npv_e_delt) / (npv_csave * 1000000))
                else (999, 999))
         in if update_results_consumer_metrics m then
              let res = (\<exists>x \<in> set (bldg_type m). x \<in> set res_bldg_types);
                  com = (\<exists>x \<in> set (bldg_type m). x \<notin> set res_bldg_types);
                  com_cost = (\<lambda>cashflows.
                     if com then Some (ComRates (map (\<lambda>tps. npv tps cashflows) com_timeprefs_rates))
                     else None);
                  flows_e = map2 (+) cashflows_s_delt cashflows_e_delt;
                  flows_ec = map2 (+) flows_e cashflows_c_delt
              in case payback flows_e of
                   Inl e \<Rightarrow> Inl e
                 | Inr pb_e \<Rightarrow>
                    (case payback flows_ec of
                       Inl e \<Rightarrow> Inl e
                     | Inr pb_ec \<Rightarrow>
                        Inr \<lparr> unit_cost_s_res = (if res then Some scost_meas else None),
                              unit_cost_e_res = (if res then Some ecost_meas else None),
                              unit_cost_c_res = (if res then Some ccost_meas else None),
                              unit_cost_s_com = com_cost cashflows_s_tot,
                              unit_cost_e_com = com_cost cashflows_e_tot,
                              unit_cost_c_com = com_cost cashflows_c_tot,
                              irr_e = Some (irr_or_sentinel irr flows_e),
                              irr_ec = Some (irr_or_sentinel irr flows_ec),
                              payback_e = Some pb_e,
                              payback_ec = Some pb_ec,
                              cce = cce_v, cce_bens = cce_bens_v,
                              ccc = ccc_v, ccc_bens = ccc_bens_v \<rparr>)
            else
              Inr \<lparr> unit_cost_s_res = None, unit_cost_e_res = None, unit_cost_c_res = None,
                    unit_cost_s_com = None, unit_cost_e_com = None, unit_cost_c_com = None,
                    irr_e = None, irr_ec = None, payback_e = None, payback_ec = None,
                    cce = cce_v, cce_bens = cce_bens_v,
                    ccc = ccc_v, ccc_bens = ccc_bens_v \<rparr>)"

text \<open>
  The cost of conserved energy as the specification words it: the net present value of a
  stream over the years \<open>0..L\<close> of the measure life, the capital stream (the upfront
  incremental cost, then the avoided baseline purchases), the annual streams that start in
  year 1, and CCE as minus the capital NPV over the energy-savings NPV, or 999.
\<close>

definition spec_npv :: "real \<Rightarrow> (nat \<Rightarrow> real) \<Rightarrow> nat \<Rightarrow> real" where
  "spec_npv rate flow L = (\<Sum>t\<le>L. flow t / (1 + rate) ^ t)"

definition spec_capital_flow :: "measure \<Rightarrow> int \<Rightarrow> int \<Rightarrow> real \<Rightarrow> real \<Rightarrow> nat \<Rightarrow> real" where
  "spec_capital_flow m life_base life_meas scost_base upfront t =
     (if t = 0 then upfront
      else if lighting_gain_applies m life_base life_meas \<and> int t < life_meas \<and> life_base dvd int t
           then scost_base else 0)"

definition spec_annual_flow :: "real \<Rightarrow> nat \<Rightarrow> real" where
  "spec_annual_flow x t = (if t = 0 then 0 else x)"

definition spec_life :: "int \<Rightarrow> nat" where
  "spec_life life_meas = nat (max 1 life_meas)"

definition spec_cce :: "measure \<Rightarrow> int \<Rightarrow> int \<Rightarrow> real \<Rightarrow> real \<Rightarrow> real \<Rightarrow> real" where
  "spec_cce m life_base life_meas scost_base scost_meas_delt esave =
     (let L = spec_life life_meas;
          npv_capital = spec_npv discount_rate
             (spec_capital_flow m life_base life_meas scost_base scost_meas_delt) L;
          npv_esave = spec_npv discount_rate (spec_annual_flow esave) L
      in if npv_esave > 0 then - npv_capital / npv_esave else 999)"

definition spec_cce_bens :: "measure \<Rightarrow> int \<Rightarrow> int \<Rightarrow> real \<Rightarrow> real \<Rightarrow> real \<Rightarrow> real \<Rightarrow> real" where
  "spec_cce_bens m life_base life_meas scost_base scost_meas_delt esave ccostsave =
     (let L = spec_life life_meas;
          npv_capital = spec_npv discount_rate
             (spec_capital_flow m life_base life_meas scost_base scost_meas_delt) L;
          npv_carbon_cost = spec_npv discount_rate (spec_annual_flow ccostsave) L;
          npv_esave = spec_npv discount_rate (spec_annual_flow esave) L
      in if npv_esave > 0 then (- npv_capital - npv_carbon_cost) / npv_esave else 999)"

subsection \<open>Contributing microsegment keys\<close>

text \<open>
  A contributing microsegment key is the \<^verbatim>\<open>str\<close> of a tuple of strings (microsegment type,
  climate zone, building type, fuel, end use, technology type, ..., structure type), which
  the engine decodes again with \<^verbatim>\<open>literal_eval\<close>. \<open>py_repr\<close> is Python's \<^verbatim>\<open>repr\<close> of a
  string that holds no quote, backslash or control character: the string between two
  single quotes (character 0x27).
\<close>

definition py_repr :: "string \<Rightarrow> string" where
  "py_repr s = CHR 0x27 # s @ [CHR 0x27]"

fun join :: "string \<Rightarrow> string list \<Rightarrow> string" where
  "join sep [] = []"
| "join sep [x] = x"
| "join sep (x # y # ys) = x @ sep @ join sep (y # ys)"

text \<open>\<^verbatim>\<open>str\<close> of a tuple; a tuple of one element is written with a trailing comma.\<close>

definition py_str_tuple :: "string list \<Rightarrow> string" where
  "py_str_tuple xs =
     (case xs of
        [x] \<Rightarrow> ''('' @ py_repr x @ '',)''
      | _ \<Rightarrow> ''('' @ join '', '' (map py_repr xs) @ '')'')"

text \<open>Python's \<^verbatim>\<open>sub in s\<close> on strings.\<close>

definition py_in :: "string \<Rightarrow> string \<Rightarrow> bool" where
  "py_in sub s = sublist sub s"

subsection \<open>The adjustment primitive (\<^verbatim>\<open>Engine.compete_adj\<close>, lines 3020-3292)\<close>

text \<open>
  Years are the keys \<^verbatim>\<open>"2015"\<close>, ... of the year dicts, read with \<^verbatim>\<open>int(yr)\<close>; they are
  integers here. The master microsegment and a contributing microsegment have the same
  shape: \<^verbatim>\<open>["stock"][status]["measure"][yr]\<close> and, for the five quantities in the order of
  \<^verbatim>\<open>mast_list_base\<close> (stock cost, energy cost, carbon cost, energy, carbon),
  \<^verbatim>\<open>[...][status][case][yr]\<close>. These nested dicts hold every key the engine reads (they
  are built by the preparation stage), so they are total functions here.
\<close>

type_synonym year = int

datatype resource = CostStock | CostEnergy | CostCarbon | Energy | Carbon

datatype status = Total | Competed

datatype scen = Baseline | Efficient

record mseg =
  stock_measure :: "status \<Rightarrow> year \<Rightarrow> real"
  vals :: "resource \<Rightarrow> status \<Rightarrow> scen \<Rightarrow> year \<Rightarrow> real"

text \<open>
  \<^verbatim>\<open>["secondary mseg adjustments"]["market share"]\<close>: four dicts from the linking key
  (climate zone, building type, structure type) to a year dict.
\<close>

record secnd_mktshr =
  original_total :: "(string \<times> (year \<Rightarrow> real)) list"
  original_comp :: "(string \<times> (year \<Rightarrow> real)) list"
  adjusted_total :: "(string \<times> (year \<Rightarrow> real)) list"
  adjusted_comp :: "(string \<times> (year \<Rightarrow> real)) list"

text \<open>
  What \<^verbatim>\<open>compete_adj\<close> mutates: the measure's master microsegment, the contributing
  microsegment \<open>adj\<close>, the three breakout year dicts of the microsegment's reporting
  category, and the secondary adjustment record. The master and the contributing
  microsegment are distinct objects.
\<close>

record adj_state =
  mast :: mseg
  adj :: mseg
  mast_brk_base :: "year \<Rightarrow> real"
  mast_brk_eff :: "year \<Rightarrow> real"
  mast_brk_save :: "year \<Rightarrow> real"
  secnd :: secnd_mktshr

text \<open>A dict lookup \<^verbatim>\<open>d[k]\<close>, which raises KeyError on a missing key.\<close>

definition lookup :: "('k \<rightharpoonup> 'v) \<Rightarrow> 'k \<Rightarrow> error + 'v" where
  "lookup d k = (case d k of None \<Rightarrow> Inl KeyError | Some v \<Rightarrow> Inr v)"

text \<open>
  Lines 3114-3167, the moving average over \<open>weighting_yrs\<close>. The accumulator is
  \<open>(adj_frac_tot, eff_frac_map, base_frac_map)\<close>; \<open>tp\<close> says that the adoption scheme is
  \<^verbatim>\<open>"Technical potential"\<close>, \<open>new_seg\<close> that \<^verbatim>\<open>"new" in mseg_key\<close>.
\<close>

fun weighting_loop ::
  "bool \<Rightarrow> bool \<Rightarrow> (year \<rightharpoonup> real) \<Rightarrow> (year \<rightharpoonup> real) \<Rightarrow> (year \<rightharpoonup> real) \<Rightarrow> (year \<rightharpoonup> real) \<Rightarrow>
     nat \<Rightarrow> year list \<Rightarrow> real \<times> real \<times> real \<Rightarrow> error + real \<times> real \<times> real" where
  "weighting_loop tp new_seg adj_fracs added base_turnover_rt eff_turnover_rt ind [] acc = Inr acc"
| "weighting_loop tp new_seg adj_fracs added base_turnover_rt eff_turnover_rt ind (wyr # rest)
       (adj_frac_tot, eff_frac_map, base_frac_map) =
     (if ind = 0 \<or> tp then
        (case lookup adj_fracs wyr of Inl e \<Rightarrow> Inl e | Inr f \<Rightarrow>
         case lookup added wyr of Inl e \<Rightarrow> Inl e | Inr a \<Rightarrow>
           weighting_loop tp new_seg adj_fracs added base_turnover_rt eff_turnover_rt (ind + 1)
             rest (f + a, eff_frac_map, base_frac_map))
      else
        (case lookup base_turnover_rt wyr of Inl e \<Rightarrow> Inl e | Inr b \<Rightarrow>
         case lookup eff_turnover_rt wyr of Inl e \<Rightarrow> Inl e | Inr r \<Rightarrow>
         case lookup adj_fracs wyr of Inl e \<Rightarrow> Inl e | Inr f \<Rightarrow>
         case lookup added wyr of Inl e \<Rightarrow> Inl e | Inr a \<Rightarrow>
           let base_turnover_wt =
                 (if new_seg then b else if b < base_frac_map then b else base_frac_map);
               eff_turnover_wt = (if new_seg then r else r * eff_frac_map);
               eff_frac_map' =
                 (if new_seg then eff_frac_map
                  else if eff_frac_map + b < 1 then eff_frac_map + b else 1);
               base_frac_map' =
                 (if new_seg then base_frac_map
                  else if eff_frac_map + b < 1 then 1 - (eff_frac_map + b) else 0);
               wt_comp = base_turnover_wt + eff_turnover_wt
           in weighting_loop tp new_seg adj_fracs added base_turnover_rt eff_turnover_rt (ind + 1)
                rest ((1 - wt_comp) * adj_frac_tot + wt_comp * (f + a),
                      eff_frac_map', base_frac_map')))"

text \<open>
  Lines 3088-3173: the competed share of the year and the weighted total share, capped at
  1. \<^verbatim>\<open>min\<close> of an empty list raises ValueError.
\<close>

definition adj_frac_shares ::
  "string \<Rightarrow> string \<Rightarrow> (year \<rightharpoonup> real) \<Rightarrow> (year \<rightharpoonup> real) \<Rightarrow> year list \<Rightarrow>
     (year \<rightharpoonup> real) \<Rightarrow> (year \<rightharpoonup> real) \<Rightarrow> year \<Rightarrow> error + real \<times> real" where
  "adj_frac_shares adopt_scheme mseg_key adj_fracs added mkt_entry_yrs base_turnover_rt
       eff_turnover_rt yr =
     (case lookup adj_fracs yr of Inl e \<Rightarrow> Inl e | Inr f \<Rightarrow>
      case lookup added yr of Inl e \<Rightarrow> Inl e | Inr a \<Rightarrow>
        let adj_frac_comp = f + a
        in if mkt_entry_yrs = [] then Inl ValueError
           else
             let entry = Min (set mkt_entry_yrs);
                 weighting_yrs = filter (\<lambda>x. adj_fracs x \<noteq> None) [entry..yr];
                 tot =
                   (if yr < entry then Inr (f + a)
                    else case weighting_loop (adopt_scheme = ''Technical potential'')
                                (py_in ''new'' mseg_key) adj_fracs added base_turnover_rt
                                eff_turnover_rt 0 weighting_yrs (0, 0, 1) of
                           Inl e \<Rightarrow> Inl e
                         | Inr (t, eff_frac_map, base_frac_map) \<Rightarrow> Inr t)
             in case tot of
                  Inl e \<Rightarrow> Inl e
                | Inr adj_frac_tot \<Rightarrow>
                    Inr (adj_frac_comp, if adj_frac_tot > 1 then 1 else adj_frac_tot))"

text \<open>
  Lines 3178-3219: for a primary microsegment with secondary effects, the original and the
  adjusted captured energy of the year are added to the record under the linking key.
\<close>

definition add_at :: "string \<Rightarrow> year \<Rightarrow> real \<Rightarrow> (string \<times> (year \<Rightarrow> real)) list \<Rightarrow>
    (string \<times> (year \<Rightarrow> real)) list" where
  "add_at k yr x d = map (\<lambda>(k', v). if k' = k then (k', v(yr := v yr + x)) else (k', v)) d"

definition has_key :: "string \<Rightarrow> (string \<times> 'v) list \<Rightarrow> bool" where
  "has_key k d \<longleftrightarrow> k \<in> set (map fst d)"

definition record_secnd ::
  "string list \<Rightarrow> year \<Rightarrow> mseg \<Rightarrow> real \<Rightarrow> real \<Rightarrow> secnd_mktshr \<Rightarrow> error + secnd_mktshr" where
  "record_secnd key_fields yr a adj_frac_comp adj_frac_tot s =
     (if original_total s \<noteq> [] then
        (if length key_fields < 3 then Inl IndexError
         else
           let secnd_mseg_adjkey =
                 py_str_tuple [key_fields ! 1, key_fields ! 2, last key_fields]
           in if has_key secnd_mseg_adjkey (original_total s) then
                (if has_key secnd_mseg_adjkey (original_comp s) \<and>
                    has_key secnd_mseg_adjkey (adjusted_total s) \<and>
                    has_key secnd_mseg_adjkey (adjusted_comp s)
                 then Inr \<lparr>
                   original_total = add_at secnd_mseg_adjkey yr
                     (vals a Energy Total Efficient yr) (original_total s),
                   original_comp = add_at secnd_mseg_adjkey yr
                     (vals a Energy Competed Efficient yr) (original_comp s),
                   adjusted_total = add_at secnd_mseg_adjkey yr
                     (vals a Energy Total Efficient yr * adj_frac_tot) (adjusted_total s),
                   adjusted_comp = add_at secnd_mseg_adjkey yr
                     (vals a Energy Competed Efficient yr * adj_frac_comp) (adjusted_comp s) \<rparr>
                 else Inl KeyError)
              else Inr s)
      else Inr s)"

text \<open>
  Lines 3225-3292. Every right-hand side reads the contributing microsegment before it is
  rescaled: the two list comprehensions over \<open>mastlist\<close> are evaluated before the two over
  \<open>adjlist\<close> are assigned, and the baseline and the efficient pass touch different dicts.
  \<open>share\<close> is \<open>adj_frac_tot\<close> for the total and \<open>adj_frac_comp\<close> for the competed entries.
\<close>

definition scale_down :: "year \<Rightarrow> (status \<Rightarrow> real) \<Rightarrow> mseg \<Rightarrow> mseg \<Rightarrow> mseg" where
  "scale_down yr share m a =
     \<lparr> stock_measure = (\<lambda>s y. if y = yr
          then stock_measure m s y - stock_measure a s y * (1 - share s)
          else stock_measure m s y),
       vals = (\<lambda>r s c y. if y = yr
          then vals m r s c y - (vals a r s c y * (1 - share s))
          else vals m r s c y) \<rparr>"

definition scale_retained :: "year \<Rightarrow> (status \<Rightarrow> real) \<Rightarrow> mseg \<Rightarrow> mseg" where
  "scale_retained yr share a =
     \<lparr> stock_measure = (\<lambda>s y. if y = yr then stock_measure a s y * share s
          else stock_measure a s y),
       vals = (\<lambda>r s c y. if y = yr then vals a r s c y * share s else vals a r s c y) \<rparr>"

definition compete_adj ::
  "(year \<rightharpoonup> real) \<Rightarrow> (year \<rightharpoonup> real) \<Rightarrow> year \<Rightarrow> string list \<Rightarrow> string \<Rightarrow> year list \<Rightarrow>
     (year \<rightharpoonup> real) \<Rightarrow> (year \<rightharpoonup> real) \<Rightarrow> adj_state \<Rightarrow> error + adj_state" where
  "compete_adj adj_fracs added_sbmkt_fracs yr key_fields adopt_scheme mkt_entry_yrs
       base_turnover_rt eff_turnover_rt st =
     (case adj_frac_shares adopt_scheme (py_str_tuple key_fields) adj_fracs added_sbmkt_fracs
             mkt_entry_yrs base_turnover_rt eff_turnover_rt yr of
        Inl e \<Rightarrow> Inl e
      | Inr (adj_frac_comp, adj_frac_tot) \<Rightarrow>
         (case record_secnd key_fields yr (adj st) adj_frac_comp adj_frac_tot (secnd st) of
            Inl e \<Rightarrow> Inl e
          | Inr secnd' \<Rightarrow>
             let a = adj st;
                 share = (\<lambda>s. case s of Total \<Rightarrow> adj_frac_tot | Competed \<Rightarrow> adj_frac_comp)
             in Inr \<lparr>
                  mast = scale_down yr share (mast st) a,
                  adj = scale_retained yr share a,
                  mast_brk_base = (mast_brk_base st)(yr := mast_brk_base st yr
                     - vals a Energy Total Baseline yr * (1 - adj_frac_tot)),
                  mast_brk_eff = (mast_brk_eff st)(yr := mast_brk_eff st yr
                     - vals a Energy Total Efficient yr * (1 - adj_frac_tot)),
                  mast_brk_save = (mast_brk_save st)(yr := mast_brk_save st yr
                     - (vals a Energy Total Baseline yr - vals a Energy Total Efficient yr)
                       * (1 - adj_frac_tot)),
                  secnd = secnd' \<rparr>))"

text \<open>The share that applies to an entry: the weighted total share or the competed share.\<close>

definition share_of :: "real \<Rightarrow> real \<Rightarrow> status \<Rightarrow> real" where
  "share_of adj_frac_comp adj_frac_tot s =
     (case s of Total \<Rightarrow> adj_frac_tot | Competed \<Rightarrow> adj_frac_comp)"

subsection \<open>Breakout partitioning (\<^verbatim>\<open>Engine.out_break_walk\<close>, lines 3760-3789)\<close>

text \<open>
  The breakout structure is a dict of dicts (climate zone, building class, end use) whose
  innermost dicts map a year string to a number.
\<close>

datatype brk = Num real | Dict "(string \<times> brk) list"

text \<open>Python's \<^verbatim>\<open>a / b\<close>, which raises ZeroDivisionError when \<open>b\<close> is zero.\<close>

definition py_truediv :: "real \<Rightarrow> real \<Rightarrow> error + real" where
  "py_truediv a b = (if b = 0 then Inl ZeroDivisionError else Inr (a / b))"

text \<open>Lines 3779-3788, the terminal value under key \<open>k\<close>.\<close>

definition walk_leaf :: "real \<Rightarrow> string \<Rightarrow> (string \<rightharpoonup> real) \<Rightarrow> bool \<Rightarrow> error + real" where
  "walk_leaf x k adjust_vals do_divide =
     (if \<not> do_divide then
        (case lookup adjust_vals k of Inl e \<Rightarrow> Inl e | Inr v \<Rightarrow> Inr (x * v))
      else
        (case lookup adjust_vals k of
           Inl e \<Rightarrow> Inl e
         | Inr v \<Rightarrow> if v \<noteq> 0 then py_truediv x v else Inr 0))"

text \<open>
  The loop over the items of \<open>adjust_dict\<close>. The source visits them in sorted key order;
  every entry is rewritten from its own old value, and the only exception that can leave
  the loop is a KeyError, so the order does not change the result.
\<close>

fun out_break_walk ::
  "(string \<times> brk) list \<Rightarrow> (string \<rightharpoonup> real) \<Rightarrow> bool \<Rightarrow> error + (string \<times> brk) list" where
  "out_break_walk [] adjust_vals do_divide = Inr []"
| "out_break_walk ((k, Dict i) # rest) adjust_vals do_divide =
     (case out_break_walk i adjust_vals do_divide of
        Inl e \<Rightarrow> Inl e
      | Inr i' \<Rightarrow>
         (case out_break_walk rest adjust_vals do_divide of
            Inl e \<Rightarrow> Inl e
          | Inr rest' \<Rightarrow> Inr ((k, Dict i') # rest')))"
| "out_break_walk ((k, Num x) # rest) adjust_vals do_divide =
     (case walk_leaf x k adjust_vals do_divide of
        Inl e \<Rightarrow> Inl e
      | Inr x' \<Rightarrow>
         (case out_break_walk rest adjust_vals do_divide of
            Inl e \<Rightarrow> Inl e
          | Inr rest' \<Rightarrow> Inr ((k, Num x') # rest')))"

text \<open>
  The keys under which terminal values are stored, and the normalised structure as the
  claim words it: each terminal value divided by the denominator of its year, or 0 where
  that denominator is 0.
\<close>

fun leaf_keys :: "(string \<times> brk) list \<Rightarrow> string set" where
  "leaf_keys [] = {}"
| "leaf_keys ((k, Dict i) # rest) = leaf_keys i \<union> leaf_keys rest"
| "leaf_keys ((k, Num x) # rest) = insert k (leaf_keys rest)"

fun spec_fractions :: "(string \<Rightarrow> real) \<Rightarrow> (string \<times> brk) list \<Rightarrow> (string \<times> brk) list" where
  "spec_fractions den [] = []"
| "spec_fractions den ((k, Dict i) # rest) =
     (k, Dict (spec_fractions den i)) # spec_fractions den rest"
| "spec_fractions den ((k, Num x) # rest) =
     (k, Num (if den k = 0 then 0 else x / den k)) # spec_fractions den rest"

subsection \<open>Commercial market shares (\<^verbatim>\<open>Engine.compete_com_primary\<close>, lines 1889-1992)\<close>

text \<open>
  For one year, \<open>tot_cost\<close> holds for every competing measure \<open>x\<close> the entry
  \<^verbatim>\<open>tot_cost[x][yr]\<close>, the total annualized cost per discount-rate bin, or \<open>None\<close> when
  \<^verbatim>\<open>yr\<close> is no key of \<^verbatim>\<open>tot_cost[x]\<close>; the key is there exactly when the measure is on the
  market in that year (lines 1835-1883).
\<close>

text \<open>The first exception of a list of results, or all the values.\<close>

fun collect :: "(error + 'a) list \<Rightarrow> error + 'a list" where
  "collect [] = Inr []"
| "collect (x # xs) =
     (case x of
        Inl e \<Rightarrow> Inl e
      | Inr v \<Rightarrow> (case collect xs of Inl e \<Rightarrow> Inl e | Inr vs \<Rightarrow> Inr (v # vs)))"

text \<open>\<^verbatim>\<open>[tot_cost[x][yr] for x in range(0, len(measures_adj)) if yr in tot_cost[x].keys()]\<close>\<close>

definition on_mkt_costs :: "real list option list \<Rightarrow> real list list" where
  "on_mkt_costs tot_cost = concat (map (\<lambda>x. case x of None \<Rightarrow> [] | Some c \<Rightarrow> [c]) tot_cost)"

text \<open>
  Lines 1958-1987, the body of the loop over the bins \<open>ind2\<close> for measure \<open>ind\<close>. Indexing a
  list beyond its end raises IndexError.
\<close>

definition com_bin_frac :: "real list option list \<Rightarrow> real list \<Rightarrow> nat \<Rightarrow> nat \<Rightarrow> error + real" where
  "com_bin_frac tot_cost mkt_dists ind ind2 =
     (case tot_cost ! ind of
        None \<Rightarrow> Inl KeyError
      | Some own \<Rightarrow>
         if \<exists>c \<in> set (on_mkt_costs tot_cost). length c \<le> ind2 then Inl IndexError
         else
           let min_val = Min (set (map (\<lambda>c. c ! ind2) (on_mkt_costs tot_cost)));
               min_val_ecms = filter
                 (\<lambda>x. case tot_cost ! x of None \<Rightarrow> False | Some c \<Rightarrow> c ! ind2 = min_val)
                 [0..<length tot_cost]
           in if own ! ind2 = min_val then
                (if ind2 < length mkt_dists
                 then Inr (mkt_dists ! ind2 / real (length min_val_ecms))
                 else Inl IndexError)
              else Inr 0)"

text \<open>Lines 1957-1988: the share of measure \<open>ind\<close> in a year in which it is on the market.\<close>

definition com_mkt_frac :: "real list option list \<Rightarrow> real list \<Rightarrow> nat \<Rightarrow> error + real" where
  "com_mkt_frac tot_cost mkt_dists ind =
     (case tot_cost ! ind of
        None \<Rightarrow> Inl KeyError
      | Some own \<Rightarrow>
         (case collect (map (com_bin_frac tot_cost mkt_dists ind) [0..<length own]) of
            Inl e \<Rightarrow> Inl e
          | Inr fracs \<Rightarrow> Inr (sum_list fracs)))"

text \<open>
  Lines 1899-1992 for point values: a measure off the market gets an even split when no
  competing measure is on the market in the year, and 0 otherwise.
\<close>

definition compete_com_share :: "real list option list \<Rightarrow> real list \<Rightarrow> nat \<Rightarrow> error + real" where
  "compete_com_share tot_cost mkt_dists ind =
     (if tot_cost ! ind \<noteq> None then com_mkt_frac tot_cost mkt_dists ind
      else if \<forall>x \<in> set tot_cost. x = None then Inr (1 / real (length tot_cost))
      else Inr 0)"

text \<open>
  Lines 1914-1953 for arrays: every \<^verbatim>\<open>tot_cost[x][yr]\<close> is a list with one list of bin costs
  per sample, and the share is computed sample by sample.
\<close>

definition com_mkt_frac_array ::
  "real list list option list \<Rightarrow> real list \<Rightarrow> nat \<Rightarrow> nat \<Rightarrow> error + real list" where
  "com_mkt_frac_array tot_cost mkt_dists length_array ind =
     collect (map (\<lambda>i. com_mkt_frac (map (map_option (\<lambda>c. c ! i)) tot_cost) mkt_dists ind)
                  [0..<length_array])"

text \<open>
  The commercial model as the specification words it: the measures on the market whose
  cost in a bin is the lowest win the bin and split its population fraction evenly; a
  measure's share is the sum over the bins.
\<close>

definition spec_bin_winners :: "real list option list \<Rightarrow> nat \<Rightarrow> nat list" where
  "spec_bin_winners tot_cost bin =
     filter (\<lambda>x. case tot_cost ! x of
                    None \<Rightarrow> False
                  | Some c \<Rightarrow> list_all (\<lambda>d. c ! bin \<le> d ! bin) (on_mkt_costs tot_cost))
            [0..<length tot_cost]"

definition spec_bin_frac :: "real list option list \<Rightarrow> real list \<Rightarrow> nat \<Rightarrow> nat \<Rightarrow> real" where
  "spec_bin_frac tot_cost mkt_dists ind bin =
     (if ind \<in> set (spec_bin_winners tot_cost bin)
      then mkt_dists ! bin / real (length (spec_bin_winners tot_cost bin))
      else 0)"

definition spec_com_share :: "real list option list \<Rightarrow> real list \<Rightarrow> nat \<Rightarrow> nat \<Rightarrow> real" where
  "spec_com_share tot_cost mkt_dists nbins ind =
     sum_list (map (spec_bin_frac tot_cost mkt_dists ind) [0..<nbins])"

subsection \<open>Sub-market redistribution (\<^verbatim>\<open>Engine.find_added_sbmkt_fracs\<close>, lines 2217-2367)\<close>








subsection \<open>Residential market shares (\<^verbatim>\<open>Engine.compete_res_primary\<close>, lines 1412-1529)\<close>

text \<open>
  What the market-share loops read of a competing measure for the competed microsegment:
  the years on the market, the residential unit capital and operating cost by year, and
  the choice parameters \<open>b1\<close> and \<open>b2\<close> by year. Point values; the year dicts hold every year
  of the horizon.
\<close>

record res_measure =
  yrs_on_mkt :: "year list"
  unit_cost_s_in :: "year \<Rightarrow> real"
  unit_cost_e_in :: "year \<Rightarrow> real"
  b1 :: "year \<Rightarrow> real"
  b2 :: "year \<Rightarrow> real"

text \<open>Lines 1432-1434; \<^verbatim>\<open>numpy.unique\<close> returns the sorted distinct years.\<close>

definition years_on_mkt_all :: "res_measure list \<Rightarrow> year list" where
  "years_on_mkt_all measures_adj = sort (remdups (concat (map yrs_on_mkt measures_adj)))"

text \<open>Lines 1473-1487: the weighted sum of capital and operating cost, guarded below.\<close>

definition sum_wt :: "res_measure \<Rightarrow> year \<Rightarrow> real" where
  "sum_wt m yr =
     (let s = unit_cost_s_in m yr * b1 m yr + unit_cost_e_in m yr * b2 m yr
      in if s < - 500 then - 500 else s)"

text \<open>Lines 1488-1489, the same guard when the weighted sum is an array of samples.\<close>

definition sum_wt_guard_array :: "real list \<Rightarrow> real list" where
  "sum_wt_guard_array s =
     (if \<exists>x \<in> set s. x < - 500 then map (\<lambda>x. if x < - 500 then - 500 else x) s else s)"

text \<open>
  Lines 1441-1495: \<^verbatim>\<open>mkt_fracs_tot[yr]\<close> after the first loop over the measures, the sum of
  \<^verbatim>\<open>numpy.exp(sum_wt)\<close> over the measures on the market in the year.
\<close>

definition mkt_fracs_tot :: "res_measure list \<Rightarrow> year \<Rightarrow> real" where
  "mkt_fracs_tot measures_adj yr =
     foldl (\<lambda>tot m. if yr \<in> set (yrs_on_mkt m) then tot + exp (sum_wt m yr) else tot)
           0 measures_adj"

text \<open>Lines 1501-1529: the normalised market fraction of every measure in the year.\<close>

definition compete_res_mkt_fracs :: "res_measure list \<Rightarrow> year \<Rightarrow> real list" where
  "compete_res_mkt_fracs measures_adj yr =
     map (\<lambda>m. if yr \<in> set (yrs_on_mkt m) then exp (sum_wt m yr) / mkt_fracs_tot measures_adj yr
               else if yr \<notin> set (years_on_mkt_all measures_adj)
                    then 1 / real (length measures_adj)
                    else 0)
         measures_adj"

text \<open>The sum of the exponentials over the measures on the market, as the claim words it.\<close>

definition spec_on_mkt_total :: "res_measure list \<Rightarrow> year \<Rightarrow> real" where
  "spec_on_mkt_total measures_adj yr =
     sum_list (map (\<lambda>m. exp (max (- 500) (unit_cost_s_in m yr * b1 m yr
                                             + unit_cost_e_in m yr * b2 m yr)))
                   (filter (\<lambda>m. yr \<in> set (yrs_on_mkt m)) measures_adj))"

subsection \<open>Order of competition (\<^verbatim>\<open>Engine.compete_measures\<close>, lines 1242-1391)\<close>







subsection \<open>Lifetime floor (\<^verbatim>\<open>Engine.calc_savings_metrics\<close>, lines 612-626 and 782-847)\<close>

text \<open>A lifetime read from the markets: a point value or a numpy array of samples.\<close>

datatype lifetime = Point real | Samples "real list"

text \<open>
  Lines 616-619 for the baseline and 623-626 for the measure lifetime. For an array the
  test is \<^verbatim>\<open>any(life) < 1\<close>: the builtin \<^verbatim>\<open>any\<close> is true when some element is not zero, and
  a bool is below 1 exactly when it is false, so the branch is entered exactly when no
  element differs from zero. Its body compares the tuple \<^verbatim>\<open>numpy.where(life)\<close> with 1,
  which raises TypeError in Python 3.
\<close>

definition lifetime_floor :: "lifetime \<Rightarrow> error + lifetime" where
  "lifetime_floor life =
     (case life of
        Samples xs \<Rightarrow> if \<not> (\<exists>x \<in> set xs. x \<noteq> 0) then Inl TypeError else Inr (Samples xs)
      | Point x \<Rightarrow> if x < 1 then Inr (Point 1) else Inr (Point x))"

text \<open>Python 3's \<^verbatim>\<open>int(round(x))\<close> on a float: rounding to the nearest integer, ties to even.\<close>

definition py_round :: "real \<Rightarrow> int" where
  "py_round x =
     (let f = \<lfloor>x\<rfloor>; d = x - of_int f
      in if d < 1 / 2 then f else if d > 1 / 2 then f + 1 else if even f then f else f + 1)"

text \<open>
  Lines 614-626 and 696-847, for point values of the costs and savings and a year in which
  \<^verbatim>\<open>metric_update\<close> is called: the pairs of lifetimes with which it is called, once for a
  point measure lifetime (line 834) and once per sample for an array (line 798). The
  baseline lifetime is floored first, then the measure lifetime; the first argument
  evaluated at either call is \<^verbatim>\<open>int(round(life_base))\<close>, and the builtin \<^verbatim>\<open>round\<close> raises
  TypeError on every numpy array. A sample \<^verbatim>\<open>life_meas_tmp[x]\<close> of the measure lifetime is a
  float and is rounded.
\<close>

definition metric_update_lifetimes :: "lifetime \<Rightarrow> lifetime \<Rightarrow> error + (int \<times> int) list" where
  "metric_update_lifetimes life_base0 life_meas0 =
     (case lifetime_floor life_base0 of
        Inl e \<Rightarrow> Inl e
      | Inr life_base \<Rightarrow>
         (case lifetime_floor life_meas0 of
            Inl e \<Rightarrow> Inl e
          | Inr life_meas \<Rightarrow>
             (case life_base of
                Samples bs \<Rightarrow> Inl TypeError
              | Point b \<Rightarrow>
                 (case life_meas of
                    Point m \<Rightarrow> Inr [(py_round b, py_round m)]
                  | Samples ms \<Rightarrow> Inr (map (\<lambda>m. (py_round b, py_round m)) ms)))))"

subsection \<open>Non-finite results in \<^verbatim>\<open>Engine.metric_update\<close> (lines 1020-1152)\<close>

text \<open>
  A second embedding of \<^verbatim>\<open>metric_update\<close>, for the branches that test
  \<^verbatim>\<open>math.isfinite\<close>. The values computed from the cash flows are floats that may be
  infinite or not a number; on finite operands the arithmetic is that of the reals, on
  the others that of IEEE 754 (\<open>inf - inf\<close>, \<open>0 * inf\<close> and \<open>inf / inf\<close> are NaN, every
  comparison with NaN is false; the sign of a zero is not modelled). The arguments of
  \<^verbatim>\<open>metric_update\<close> are finite numbers, as in the embedding above.
\<close>

datatype fl = Fin real | PInf | NInf | NaN

text \<open>\<^verbatim>\<open>math.isfinite\<close>.\<close>

definition isfinite :: "fl \<Rightarrow> bool" where
  "isfinite x = (case x of Fin r \<Rightarrow> True | _ \<Rightarrow> False)"

definition fl_inf :: "bool \<Rightarrow> fl" where
  "fl_inf positive = (if positive then PInf else NInf)"

fun fl_neg :: "fl \<Rightarrow> fl" where
  "fl_neg (Fin a) = Fin (- a)"
| "fl_neg PInf = NInf"
| "fl_neg NInf = PInf"
| "fl_neg NaN = NaN"

fun fl_add :: "fl \<Rightarrow> fl \<Rightarrow> fl" where
  "fl_add (Fin a) (Fin b) = Fin (a + b)"
| "fl_add NaN y = NaN"
| "fl_add x NaN = NaN"
| "fl_add PInf NInf = NaN"
| "fl_add NInf PInf = NaN"
| "fl_add PInf y = PInf"
| "fl_add NInf y = NInf"
| "fl_add (Fin a) y = y"

fun fl_mul :: "fl \<Rightarrow> fl \<Rightarrow> fl" where
  "fl_mul (Fin a) (Fin b) = Fin (a * b)"
| "fl_mul NaN y = NaN"
| "fl_mul x NaN = NaN"
| "fl_mul (Fin a) y = (if a = 0 then NaN else fl_inf ((a > 0) = (y = PInf)))"
| "fl_mul x (Fin b) = (if b = 0 then NaN else fl_inf ((b > 0) = (x = PInf)))"
| "fl_mul x y = fl_inf (x = y)"

fun fl_div :: "fl \<Rightarrow> fl \<Rightarrow> fl" where
  "fl_div (Fin a) (Fin b) =
     (if b \<noteq> 0 then Fin (a / b) else if a = 0 then NaN else fl_inf (a > 0))"
| "fl_div NaN y = NaN"
| "fl_div x NaN = NaN"
| "fl_div (Fin a) y = Fin 0"
| "fl_div x (Fin b) = fl_inf ((b \<ge> 0) = (x = PInf))"
| "fl_div x y = NaN"

text \<open>\<^verbatim>\<open>x > y\<close> on floats.\<close>

fun fl_gt :: "fl \<Rightarrow> fl \<Rightarrow> bool" where
  "fl_gt (Fin a) (Fin b) = (a > b)"
| "fl_gt NaN y = False"
| "fl_gt x NaN = False"
| "fl_gt PInf y = (y \<noteq> PInf)"
| "fl_gt NInf y = False"
| "fl_gt (Fin a) y = (y = NInf)"

text \<open>
  The commercial unit cost as the code builds it: a dict of floats with one entry per
  discount-rate tier (in tier order), or the number 999.
\<close>

datatype com_unit_cost_fl = ComRatesFl "fl list" | ComSentinelFl

record metrics_fl =
  unit_cost_s_res_fl :: "real option"
  unit_cost_e_res_fl :: "real option"
  unit_cost_c_res_fl :: "real option"
  unit_cost_s_com_fl :: "com_unit_cost_fl option"
  unit_cost_e_com_fl :: "com_unit_cost_fl option"
  unit_cost_c_com_fl :: "com_unit_cost_fl option"
  irr_e_fl :: "fl option"
  irr_ec_fl :: "fl option"
  payback_e_fl :: "real option"
  payback_ec_fl :: "real option"
  cce_fl :: fl
  cce_bens_fl :: fl
  ccc_fl :: fl
  ccc_bens_fl :: fl

text \<open>
  Lines 1100-1119, the body of the \<^verbatim>\<open>try\<close>: for each tier the three net present values are
  stored under \<^verbatim>\<open>"rate " + str(ind + 1)\<close>, then tested; the first tier with a value that is
  not finite raises ValueError and ends the loop. \<^verbatim>\<open>numpy.npv\<close> is the parameter \<open>npv_fl\<close>.
\<close>

fun com_rates_loop ::
  "(real \<Rightarrow> real list \<Rightarrow> fl) \<Rightarrow> real list \<Rightarrow> real list \<Rightarrow> real list \<Rightarrow> real list \<Rightarrow>
     fl list \<times> fl list \<times> fl list \<Rightarrow> error + fl list \<times> fl list \<times> fl list" where
  "com_rates_loop npv_fl cashflows_s_tot cashflows_e_tot cashflows_c_tot [] (us, ue, uc) =
     Inr (us, ue, uc)"
| "com_rates_loop npv_fl cashflows_s_tot cashflows_e_tot cashflows_c_tot (tps # rates)
       (us, ue, uc) =
     (let vs = npv_fl tps cashflows_s_tot;
          ve = npv_fl tps cashflows_e_tot;
          vc = npv_fl tps cashflows_c_tot
      in if \<exists>x \<in> set [vs, ve, vc]. \<not> isfinite x then Inl ValueError
         else com_rates_loop npv_fl cashflows_s_tot cashflows_e_tot cashflows_c_tot rates
                (us @ [vs], ue @ [ve], uc @ [vc]))"

text \<open>
  Lines 1097-1121: the \<^verbatim>\<open>except ValueError\<close> replaces all three dicts, whatever they hold
  by then, with the number 999.
\<close>

definition com_unit_costs ::
  "(real \<Rightarrow> real list \<Rightarrow> fl) \<Rightarrow> real list \<Rightarrow> real list \<Rightarrow> real list \<Rightarrow>
     com_unit_cost_fl \<times> com_unit_cost_fl \<times> com_unit_cost_fl" where
  "com_unit_costs npv_fl cashflows_s_tot cashflows_e_tot cashflows_c_tot =
     (case com_rates_loop npv_fl cashflows_s_tot cashflows_e_tot cashflows_c_tot
             com_timeprefs_rates ([], [], []) of
        Inl e \<Rightarrow> (ComSentinelFl, ComSentinelFl, ComSentinelFl)
      | Inr (us, ue, uc) \<Rightarrow> (ComRatesFl us, ComRatesFl ue, ComRatesFl uc))"

text \<open>
  Lines 1132-1137 and 1143-1148. \<^verbatim>\<open>numpy.irr\<close> is the parameter \<open>irr_fl\<close>; it returns a float
  (NaN when the cash flows have no rate of return) or raises. A ValueError, raised by
  \<^verbatim>\<open>numpy.irr\<close> or by the test for a result that is not finite, is caught and gives 999; any
  other exception leaves \<^verbatim>\<open>metric_update\<close>.
\<close>

definition irr_or_999 :: "(real list \<Rightarrow> error + fl) \<Rightarrow> real list \<Rightarrow> error + fl" where
  "irr_or_999 irr_fl cashflows =
     (case irr_fl cashflows of
        Inl e \<Rightarrow> if e = ValueError then Inr (Fin 999) else Inl e
      | Inr r \<Rightarrow> if \<not> isfinite r then Inr (Fin 999) else Inr r)"

definition metric_update_fl ::
  "(real \<Rightarrow> real list \<Rightarrow> fl) \<Rightarrow> (real list \<Rightarrow> error + fl) \<Rightarrow> measure \<Rightarrow> int \<Rightarrow> int \<Rightarrow>
     real \<Rightarrow> real \<Rightarrow> real \<Rightarrow> real \<Rightarrow> real \<Rightarrow> real \<Rightarrow> real \<Rightarrow> real \<Rightarrow> real \<Rightarrow> error + metrics_fl" where
  "metric_update_fl npv_fl irr_fl m life_base life_meas0 scost_base scost_meas_delt esave
       ecostsave csave ccostsave scost_meas ecost_meas ccost_meas =
     (case added_stockcost_gain_yrs m life_base life_meas0 of
        Inl e \<Rightarrow> Inl e
      | Inr gain_yrs \<Rightarrow>
         let life_meas = (if life_meas0 < 1 then 1 else life_meas0);
             cashflows_s_delt = cashflows_s scost_meas_delt scost_base gain_yrs life_meas;
             cashflows_s_tot = cashflows_s scost_meas scost_base gain_yrs life_meas;
             cashflows_e_delt = cashflows_const ecostsave life_meas;
             cashflows_c_delt = cashflows_const ccostsave life_meas;
             cashflows_e_tot = cashflows_const ecost_meas life_meas;
             cashflows_c_tot = cashflows_const ccost_meas life_meas;
             npv_s_delt = npv_fl discount_rate cashflows_s_delt;
             npv_e_delt = npv_fl discount_rate cashflows_e_delt;
             npv_c_delt = npv_fl discount_rate cashflows_c_delt;
             esave_array = cashflows_const esave life_meas;
             csave_array = cashflows_const csave life_meas;
             npv_esave = npv_fl discount_rate esave_array;
             npv_csave = npv_fl discount_rate csave_array;
             (cce_v, cce_bens_v) =
               (if fl_gt npv_esave (Fin 0)
                then (fl_div (fl_neg npv_s_delt) npv_esave,
                      fl_div (fl_neg (fl_add npv_s_delt npv_c_delt)) npv_esave)
                else (Fin 999, Fin 999));
             (ccc_v, ccc_bens_v) =
               (if fl_gt npv_csave (Fin 0)
                then (fl_div (fl_neg npv_s_delt) (fl_mul npv_csave (Fin 1000000)),
                      fl_div (fl_neg (fl_add npv_s_delt npv_e_delt))
                             (fl_mul npv_csave (Fin 1000000)))
                else (Fin 999, Fin 999))
         in if update_results_consumer_metrics m then
              let res = (\<exists>x \<in> set (bldg_type m). x \<in> set res_bldg_types);
                  com = (\<exists>x \<in> set (bldg_type m). x \<notin> set res_bldg_types);
                  (us, ue, uc) =
                     (if com then
                        (case com_unit_costs npv_fl cashflows_s_tot cashflows_e_tot
                                cashflows_c_tot of
                           (s, e, c) \<Rightarrow> (Some s, Some e, Some c))
                      else (None, None, None));
                  flows_e = map2 (+) cashflows_s_delt cashflows_e_delt;
                  flows_ec = map2 (+) flows_e cashflows_c_delt
              in case irr_or_999 irr_fl flows_e of
                   Inl e \<Rightarrow> Inl e
                 | Inr irr_e_v \<Rightarrow>
                (case payback flows_e of
                   Inl e \<Rightarrow> Inl e
                 | Inr pb_e \<Rightarrow>
                (case irr_or_999 irr_fl flows_ec of
                   Inl e \<Rightarrow> Inl e
                 | Inr irr_ec_v \<Rightarrow>
                (case payback flows_ec of
                   Inl e \<Rightarrow> Inl e
                 | Inr pb_ec \<Rightarrow>
                    Inr \<lparr> unit_cost_s_res_fl = (if res then Some scost_meas else None),
                          unit_cost_e_res_fl = (if res then Some ecost_meas else None),
                          unit_cost_c_res_fl = (if res then Some ccost_meas else None),
                          unit_cost_s_com_fl = us,
                          unit_cost_e_com_fl = ue,
                          unit_cost_c_com_fl = uc,
                          irr_e_fl = Some irr_e_v,
                          irr_ec_fl = Some irr_ec_v,
                          payback_e_fl = Some pb_e,
                          payback_ec_fl = Some pb_ec,
                          cce_fl = cce_v, cce_bens_fl = cce_bens_v,
                          ccc_fl = ccc_v, ccc_bens_fl = ccc_bens_v \<rparr>)))
            else
              Inr \<lparr> unit_cost_s_res_fl = None, unit_cost_e_res_fl = None,
                    unit_cost_c_res_fl = None, unit_cost_s_com_fl = None,
                    unit_cost_e_com_fl = None, unit_cost_c_com_fl = None,
                    irr_e_fl = None, irr_ec_fl = None, payback_e_fl = None,
                    payback_ec_fl = None,
                    cce_fl = cce_v, cce_bens_fl = cce_bens_v,
                    ccc_fl = ccc_v, ccc_bens_fl = ccc_bens_v \<rparr>)"



text \<open>The embedding of a finite result, and of the finite metrics, into the floats.\<close>

definition com_fl :: "com_unit_cost \<Rightarrow> com_unit_cost_fl" where
  "com_fl u = (case u of ComRates rs \<Rightarrow> ComRatesFl (map Fin rs) | ComSentinel \<Rightarrow> ComSentinelFl)"

definition metrics_to_fl :: "metrics \<Rightarrow> metrics_fl" where
  "metrics_to_fl out =
     \<lparr> unit_cost_s_res_fl = unit_cost_s_res out,
       unit_cost_e_res_fl = unit_cost_e_res out,
       unit_cost_c_res_fl = unit_cost_c_res out,
       unit_cost_s_com_fl = map_option com_fl (unit_cost_s_com out),
       unit_cost_e_com_fl = map_option com_fl (unit_cost_e_com out),
       unit_cost_c_com_fl = map_option com_fl (unit_cost_c_com out),
       irr_e_fl = map_option Fin (irr_e out),
       irr_ec_fl = map_option Fin (irr_ec out),
       payback_e_fl = payback_e out,
       payback_ec_fl = payback_ec out,
       cce_fl = Fin (cce out), cce_bens_fl = Fin (cce_bens out),
       ccc_fl = Fin (ccc out), ccc_bens_fl = Fin (ccc_bens out) \<rparr>"


subsection \<open>Properties of payback\<close>

lemma length_cumsum [simp]: "length (cumsum t xs) = length xs"
  by (induction xs arbitrary: t) auto

lemma payback_loop_cumsum:
  "payback_loop iv fs t y c =
     (y + length (filter (\<lambda>s. s < iv) (cumsum t fs)), c @ cumsum t fs)"
  by (induction fs arbitrary: t y c) (auto simp: Let_def)

lemma length_extend_cashflows: "100 \<le> length (extend_cashflows cfs)"
  by (simp add: extend_cashflows_def)

lemma payback_example: "payback [-100, 50, 50, 50] = Inr 2"
  by code_simp


lemma payback_never_recovers:
  assumes "cfs \<noteq> []" and "hd cfs < 0"
    and "\<forall>s \<in> set (cumsum 0 (extend_cashflows cfs)). s < \<bar>hd cfs\<bar>"
  shows "payback cfs = Inr 999"
proof -
  have "filter (\<lambda>s. s < \<bar>hd cfs\<bar>) (cumsum 0 (extend_cashflows cfs))
          = cumsum 0 (extend_cashflows cfs)"
    using assms(3) by (simp add: filter_id_conv)
  then show ?thesis
    using assms(1,2) by (simp add: payback_def Let_def payback_loop_cumsum)
qed

lemma spec_payback_walk_first_crossing:
  "t < iv \<Longrightarrow>
   spec_payback_walk iv fs t n =
     (let k = length (takeWhile (\<lambda>s. s < iv) (cumsum t fs));
          prev = (if k = 0 then t else cumsum t fs ! (k - 1))
      in if k < length fs then Some (real n + real k + (iv - prev) / (cumsum t fs ! k - prev))
         else None)"
proof (induction fs arbitrary: t n)
  case Nil
  then show ?case by simp
next
  case (Cons f fs)
  show ?case
  proof (cases "t + f < iv")
    case True
    then show ?thesis
      using Cons.IH[OF True, of "n + 1"] by (auto simp: Let_def nth_Cons')
  next
    case False
    then show ?thesis by (simp add: Let_def)
  qed
qed

lemma sorted_filter_takeWhile:
  "sorted xs \<Longrightarrow> filter (\<lambda>s. s < (a::real)) xs = takeWhile (\<lambda>s. s < a) xs"
proof (induction xs)
  case Nil
  then show ?case by simp
next
  case (Cons x xs)
  show ?case
  proof (cases "x < a")
    case True
    then show ?thesis using Cons by simp
  next
    case False
    then have "\<forall>y \<in> set xs. \<not> y < a" using Cons.prems by auto
    then have "filter (\<lambda>s. s < a) xs = []" by (simp add: filter_empty_conv)
    then show ?thesis using False by simp
  qed
qed

lemma sorted_cumsum: "\<forall>f \<in> set fs. 0 \<le> f \<Longrightarrow> sorted (cumsum t fs)"
proof (induction fs arbitrary: t)
  case Nil then show ?case by simp
next
  case (Cons f fs)
  have "\<And>u. \<forall>f \<in> set fs. 0 \<le> f \<Longrightarrow> \<forall>s \<in> set (cumsum u fs). u \<le> s"
  proof -
    fix u show "\<forall>f \<in> set fs. 0 \<le> f \<Longrightarrow> \<forall>s \<in> set (cumsum u fs). u \<le> s"
      by (induction fs arbitrary: u) (auto, force)
  qed
  with Cons show ?case by auto
qed

lemma payback_refines_spec:
  assumes "cfs \<noteq> []" and "\<forall>f \<in> set (extend_cashflows cfs). 0 \<le> f"
  shows "payback cfs = Inr (spec_payback cfs)"
proof (cases "hd cfs \<ge> 0")
  case True
  then show ?thesis using assms(1) by (simp add: payback_def spec_payback_def)
next
  case False
  define iv where "iv = \<bar>hd cfs\<bar>"
  define fl where "fl = extend_cashflows cfs"
  define C where "C = cumsum 0 fl"
  define k where "k = length (takeWhile (\<lambda>s. s < iv) C)"
  have iv: "0 < iv" using False by (simp add: iv_def)
  have filt: "filter (\<lambda>s. s < iv) C = takeWhile (\<lambda>s. s < iv) C"
    unfolding C_def fl_def by (rule sorted_filter_takeWhile, rule sorted_cumsum, rule assms(2))
  have walk: "spec_payback_walk iv fl 0 0 =
     (if k < length fl then Some (real k + (iv - (if k = 0 then 0 else C ! (k - 1))) / (C ! k - (if k = 0 then 0 else C ! (k - 1))))
         else None)"
    using spec_payback_walk_first_crossing[OF iv, of fl 0] by (simp add: Let_def k_def C_def)
  show ?thesis
  proof (cases "k < length fl")
    case nk: False
    then show ?thesis
      using False assms(1) walk filt
      by (simp add: payback_def spec_payback_def Let_def payback_loop_cumsum
          iv_def[symmetric] fl_def[symmetric] C_def[symmetric] k_def[symmetric])
  next
    case True
    then have kC: "k < length C" by (simp add: C_def)
    have ge: "\<not> C ! k < iv"
      using kC nth_length_takeWhile[of "\<lambda>s. s < iv" C] by (simp add: k_def)
    have lt: "k > 0 \<Longrightarrow> C ! (k - 1) < iv"
    proof -
      assume "k > 0"
      then have "k - 1 < length (takeWhile (\<lambda>s. s < iv) C)" by (simp add: k_def)
      then have "takeWhile (\<lambda>s. s < iv) C ! (k - 1) \<in> set (takeWhile (\<lambda>s. s < iv) C)"
        by (rule nth_mem)
      moreover have "takeWhile (\<lambda>s. s < iv) C ! (k - 1) = C ! (k - 1)"
        using \<open>k - 1 < length (takeWhile (\<lambda>s. s < iv) C)\<close> by (rule takeWhile_nth)
      ultimately show ?thesis by (auto dest: set_takeWhileD)
    qed
    have c_nz: "k = 0 \<Longrightarrow> C ! 0 \<noteq> 0" "0 < k \<Longrightarrow> C ! k \<noteq> C ! (k - Suc 0)"
      using ge lt iv by auto
    show ?thesis
      using False assms(1) walk filt True c_nz
      by (simp add: payback_def spec_payback_def Let_def payback_loop_cumsum
          iv_def[symmetric] fl_def[symmetric] C_def[symmetric] k_def[symmetric])
  qed
qed

text \<open>
  Claim C4 (simple payback). The example \<open>payback [-100, 50, 50, 50] = 2\<close>
  (\<open>payback_example\<close>), the result 0 for a non-negative first entry
  (\<open>payback_nonneg_investment\<close>) and the sentinel 999 when the running totals never reach the
  investment (\<open>payback_never_recovers\<close>) hold on the code, and where no later cash flow is
  negative the code returns the linear interpolation within the crossing year
  (\<open>payback_refines_spec\<close>). The last part of the claim, that every recovering case
  interpolates within the crossing year, fails: the loop counts every year whose running
  total is below the investment, also the years after the investment was first recovered.
  For the cash flows \<open>[-100, 150, -100, 10, 90]\<close> the running totals are
  \<open>150, 50, 60, 150, ...\<close>; the investment of 100 is first recovered two thirds into the
  first year, and the code returns 7.
\<close>

theorem payback_dip_divergence:
  "payback [-100, 150, -100, 10, 90] = Inr 7 \<and> spec_payback [-100, 150, -100, 10, 90] = 2 / 3"
  by code_simp

subsection \<open>Properties of the financial metrics\<close>

lemma npv_from_sum:
  "npv_from rate t vs = (\<Sum>i<length vs. vs ! i / (1 + rate) ^ (t + i))"
proof (induction vs arbitrary: t)
  case Nil
  then show ?case by simp
next
  case (Cons v vs)
  show ?case
    by (simp add: Cons.IH sum.lessThan_Suc_shift del: sum.lessThan_Suc)
qed

lemma npv_sum: "npv rate vs = (\<Sum>i<length vs. vs ! i / (1 + rate) ^ i)"
  by (simp add: npv_def npv_from_sum)

lemma npv_cashflows_const:
  "1 \<le> l \<Longrightarrow> npv rate (cashflows_const x l) = spec_npv rate (spec_annual_flow x) (nat l)"
proof -
  assume "1 \<le> l"
  have "npv rate (cashflows_const x l)
          = (\<Sum>i<Suc (nat l). (0 # replicate (nat l) x) ! i / (1 + rate) ^ i)"
    by (simp add: npv_sum cashflows_const_def)
  also have "\<dots> = (\<Sum>i<Suc (nat l). spec_annual_flow x i / (1 + rate) ^ i)"
    by (rule sum.cong) (auto simp: spec_annual_flow_def nth_Cons')
  finally show ?thesis by (simp add: spec_npv_def lessThan_Suc_atMost)
qed

lemma gain_yrs_mem:
  assumes "added_stockcost_gain_yrs m life_base life_meas = Inr gy"
  shows "int k \<in> set gy \<longleftrightarrow>
           lighting_gain_applies m life_base life_meas \<and> int (Suc k) < life_meas
             \<and> life_base dvd int (Suc k)"
proof (cases "lighting_gain_applies m life_base life_meas")
  case False
  then show ?thesis using assms by (auto simp: added_stockcost_gain_yrs_def)
next
  case True
  then have gy: "gy = map (\<lambda>i. i - 1) (filter (\<lambda>i. i mod life_base = 0) [1..life_meas - 1])"
    using assms by (auto simp: added_stockcost_gain_yrs_def split: if_splits)
  have "int k \<in> set gy \<longleftrightarrow> (\<exists>i. 1 \<le> i \<and> i \<le> life_meas - 1 \<and> i mod life_base = 0 \<and> int k = i - 1)"
    unfolding gy by auto
  also have "\<dots> \<longleftrightarrow> int k + 1 \<le> life_meas - 1 \<and> (int k + 1) mod life_base = 0"
    by (metis add.commute add_diff_cancel_left' diff_add_cancel le_add_same_cancel2 of_nat_0_le_iff)
  also have "\<dots> \<longleftrightarrow> int (Suc k) < life_meas \<and> life_base dvd int (Suc k)"
    by (auto simp: mod_eq_0_iff_dvd add.commute)
  finally show ?thesis using True by simp
qed

lemma npv_cashflows_s:
  assumes "added_stockcost_gain_yrs m life_base life_meas = Inr gy"
  shows "npv rate (cashflows_s upfront scost_base gy (if life_meas < 1 then 1 else life_meas))
           = spec_npv rate (spec_capital_flow m life_base life_meas scost_base upfront)
               (spec_life life_meas)"
proof -
  define l where "l = (if life_meas < 1 then 1 else life_meas)"
  have l: "1 \<le> l" "nat l = spec_life life_meas"
    by (auto simp: l_def spec_life_def)
  have len: "length (cashflows_s upfront scost_base gy l) = Suc (nat l)"
    using l(1) by (simp add: cashflows_s_def)
  have nth: "cashflows_s upfront scost_base gy l ! i
               = spec_capital_flow m life_base life_meas scost_base upfront i"
    if "i < Suc (nat l)" for i
  proof (cases i)
    case 0
    then show ?thesis by (simp add: cashflows_s_def spec_capital_flow_def)
  next
    case (Suc k)
    then have k: "k < nat l" using that by simp
    then have "[0..l - 1] ! k = int k"
      using nth_upto[of 0 k "l - 1"] by simp
    moreover have "k < length [0..l - 1]" using k by simp
    ultimately have "cashflows_s upfront scost_base gy l ! i
        = (if int k \<in> set gy then scost_base else 0)"
      using Suc by (simp add: cashflows_s_def)
    then show ?thesis
      using Suc gain_yrs_mem[OF assms, of k] by (simp add: spec_capital_flow_def)
  qed
  have "npv rate (cashflows_s upfront scost_base gy l)
          = (\<Sum>i<Suc (nat l). cashflows_s upfront scost_base gy l ! i / (1 + rate) ^ i)"
    by (simp only: npv_sum len)
  also have "\<dots> = (\<Sum>i<Suc (nat l).
        spec_capital_flow m life_base life_meas scost_base upfront i / (1 + rate) ^ i)"
    by (rule sum.cong) (auto simp: nth)
  finally show ?thesis
    unfolding l_def[symmetric] by (simp add: spec_npv_def lessThan_Suc_atMost l(2))
qed

lemma metric_update_portfolio:
  assumes "metric_update irr m life_base life_meas scost_base scost_meas_delt esave ecostsave
             csave ccostsave scost_meas ecost_meas ccost_meas = Inr out"
  obtains gy where "added_stockcost_gain_yrs m life_base life_meas = Inr gy"
    and "cce out =
       (let l = (if life_meas < 1 then 1 else life_meas);
            npv_s_delt = npv discount_rate (cashflows_s scost_meas_delt scost_base gy l);
            npv_esave = npv discount_rate (cashflows_const esave l)
        in if npv_esave > 0 then - npv_s_delt / npv_esave else 999)"
    and "cce_bens out =
       (let l = (if life_meas < 1 then 1 else life_meas);
            npv_s_delt = npv discount_rate (cashflows_s scost_meas_delt scost_base gy l);
            npv_c_delt = npv discount_rate (cashflows_const ccostsave l);
            npv_esave = npv discount_rate (cashflows_const esave l)
        in if npv_esave > 0 then - (npv_s_delt + npv_c_delt) / npv_esave else 999)"
  using assms unfolding metric_update_def Let_def
  by (auto split: sum.splits if_splits prod.splits)

lemma metric_update_returns:
  assumes "\<not> update_results_consumer_metrics m"
    and "lighting_gain_applies m life_base life_meas \<longrightarrow> life_base \<noteq> 0"
  shows "\<exists>out. metric_update irr m life_base life_meas scost_base scost_meas_delt esave
            ecostsave csave ccostsave scost_meas ecost_meas ccost_meas = Inr out"
  using assms unfolding metric_update_def Let_def added_stockcost_gain_yrs_def
  by (auto split: prod.splits)

text \<open>
  Claim C3 (cost of conserved energy). Whenever \<open>metric_update\<close> returns, the returned CCE
  is 999 if the net present value of the per-unit energy savings over the measure life is
  not positive, and otherwise minus the net present value of the incremental capital cash
  flows divided by the net present value of the energy savings; the variant with carbon
  benefits subtracts the net present value of the carbon cost savings in the numerator as
  well. \<open>metric_update_returns\<close> shows that the function does return.
\<close>

theorem metric_update_cce:
  assumes "metric_update irr m life_base life_meas scost_base scost_meas_delt esave ecostsave
             csave ccostsave scost_meas ecost_meas ccost_meas = Inr out"
  shows "cce out = spec_cce m life_base life_meas scost_base scost_meas_delt esave \<and>
         cce_bens out =
           spec_cce_bens m life_base life_meas scost_base scost_meas_delt esave ccostsave"
proof -
  define l where "l = (if life_meas < 1 then 1 else life_meas)"
  have l: "1 \<le> l" "nat l = spec_life life_meas" by (auto simp: l_def spec_life_def)
  from assms obtain gy where gy: "added_stockcost_gain_yrs m life_base life_meas = Inr gy"
    and c1: "cce out =
       (let npv_s_delt = npv discount_rate (cashflows_s scost_meas_delt scost_base gy l);
            npv_esave = npv discount_rate (cashflows_const esave l)
        in if npv_esave > 0 then - npv_s_delt / npv_esave else 999)"
    and c2: "cce_bens out =
       (let npv_s_delt = npv discount_rate (cashflows_s scost_meas_delt scost_base gy l);
            npv_c_delt = npv discount_rate (cashflows_const ccostsave l);
            npv_esave = npv discount_rate (cashflows_const esave l)
        in if npv_esave > 0 then - (npv_s_delt + npv_c_delt) / npv_esave else 999)"
    unfolding l_def by (rule metric_update_portfolio) (simp add: Let_def)
  have s: "npv discount_rate (cashflows_s scost_meas_delt scost_base gy l)
             = spec_npv discount_rate
                 (spec_capital_flow m life_base life_meas scost_base scost_meas_delt)
                 (spec_life life_meas)"
    unfolding l_def by (rule npv_cashflows_s[OF gy])
  have e: "npv discount_rate (cashflows_const x l)
             = spec_npv discount_rate (spec_annual_flow x) (spec_life life_meas)" for x
    using npv_cashflows_const[OF l(1)] l(2) by simp
  show ?thesis
    unfolding c1 c2 s e spec_cce_def spec_cce_bens_def Let_def
    by (simp add: algebra_simps)
qed

theorem metric_update_cce_witness:
  "\<exists>out. metric_update (\<lambda>c. None)
       \<lparr>end_use_primary = [''lighting''], measure_type = ''full service'',
        technology_type_primary = ''supply'', bldg_type = [''single family home''],
        update_results_consumer_metrics = False\<rparr>
       2 5 10 (-20) 5 1 1 1 30 2 1 = Inr out
     \<and> cce out = spec_cce
       \<lparr>end_use_primary = [''lighting''], measure_type = ''full service'',
        technology_type_primary = ''supply'', bldg_type = [''single family home''],
        update_results_consumer_metrics = False\<rparr> 2 5 10 (-20) 5"
proof -
  have "\<exists>out. metric_update (\<lambda>c. None)
       \<lparr>end_use_primary = [''lighting''], measure_type = ''full service'',
        technology_type_primary = ''supply'', bldg_type = [''single family home''],
        update_results_consumer_metrics = False\<rparr>
       2 5 10 (-20) 5 1 1 1 30 2 1 = Inr out"
    by (rule metric_update_returns) simp_all
  then obtain out where h: "metric_update (\<lambda>c. None)
       \<lparr>end_use_primary = [''lighting''], measure_type = ''full service'',
        technology_type_primary = ''supply'', bldg_type = [''single family home''],
        update_results_consumer_metrics = False\<rparr>
       2 5 10 (-20) 5 1 1 1 30 2 1 = Inr out"
    by blast
  from metric_update_cce[OF h] h show ?thesis by blast
qed

subsection \<open>Properties of the adjustment primitive\<close>

lemma compete_adj_Inr:
  assumes "compete_adj adj_fracs added yr key_fields adopt_scheme mkt_entry_yrs
             base_turnover_rt eff_turnover_rt st = Inr st'"
  obtains adj_frac_comp adj_frac_tot where
    "adj_frac_shares adopt_scheme (py_str_tuple key_fields) adj_fracs added mkt_entry_yrs
       base_turnover_rt eff_turnover_rt yr = Inr (adj_frac_comp, adj_frac_tot)"
    "mast st' = scale_down yr (share_of adj_frac_comp adj_frac_tot) (mast st) (adj st)"
    "adj st' = scale_retained yr (share_of adj_frac_comp adj_frac_tot) (adj st)"
proof -
  from assms obtain c t where
    sh: "adj_frac_shares adopt_scheme (py_str_tuple key_fields) adj_fracs added mkt_entry_yrs
       base_turnover_rt eff_turnover_rt yr = Inr (c, t)"
    by (auto simp: compete_adj_def split: sum.splits)
  have eq: "share_of c t = (\<lambda>s. case s of Total \<Rightarrow> t | Competed \<Rightarrow> c)"
    by (rule ext) (simp add: share_of_def)
  from assms sh have "mast st' = scale_down yr (share_of c t) (mast st) (adj st)"
    and "adj st' = scale_retained yr (share_of c t) (adj st)"
    unfolding eq by (auto simp: compete_adj_def Let_def split: sum.splits)
  with sh show thesis by (rule that)
qed

text \<open>
  Claim C1 (conservation of the competition adjustment). Whenever \<open>compete_adj\<close> returns
  for a year, then for every quantity (stock cost, energy cost, carbon cost, energy,
  carbon), status (total, competed) and case (baseline, efficient), and for the measure
  stock, the new master value is the old one minus the old contributing value times
  \<open>1 - share\<close>, the new contributing value is the old one times \<open>share\<close>, and what is removed
  from the master aggregate is exactly what is removed from the contributing record; the
  share is the weighted total share for the total entries and the competed share for the
  competed entries.
\<close>

theorem compete_adj_conservation:
  assumes "compete_adj adj_fracs added yr key_fields adopt_scheme mkt_entry_yrs
             base_turnover_rt eff_turnover_rt st = Inr st'"
  shows "\<exists>adj_frac_comp adj_frac_tot.
     adj_frac_shares adopt_scheme (py_str_tuple key_fields) adj_fracs added mkt_entry_yrs
       base_turnover_rt eff_turnover_rt yr = Inr (adj_frac_comp, adj_frac_tot) \<and>
     (\<forall>r s c.
        vals (mast st') r s c yr
          = vals (mast st) r s c yr
            - vals (adj st) r s c yr * (1 - share_of adj_frac_comp adj_frac_tot s) \<and>
        vals (adj st') r s c yr
          = vals (adj st) r s c yr * share_of adj_frac_comp adj_frac_tot s \<and>
        vals (mast st) r s c yr - vals (mast st') r s c yr
          = vals (adj st) r s c yr - vals (adj st') r s c yr) \<and>
     (\<forall>s.
        stock_measure (mast st') s yr
          = stock_measure (mast st) s yr
            - stock_measure (adj st) s yr * (1 - share_of adj_frac_comp adj_frac_tot s) \<and>
        stock_measure (adj st') s yr
          = stock_measure (adj st) s yr * share_of adj_frac_comp adj_frac_tot s \<and>
        stock_measure (mast st) s yr - stock_measure (mast st') s yr
          = stock_measure (adj st) s yr - stock_measure (adj st') s yr)"
proof -
  from assms obtain c t where
    sh: "adj_frac_shares adopt_scheme (py_str_tuple key_fields) adj_fracs added mkt_entry_yrs
       base_turnover_rt eff_turnover_rt yr = Inr (c, t)"
    and m: "mast st' = scale_down yr (share_of c t) (mast st) (adj st)"
    and a: "adj st' = scale_retained yr (share_of c t) (adj st)"
    by (rule compete_adj_Inr)
  have "vals (mast st') r s k yr
          = vals (mast st) r s k yr - vals (adj st) r s k yr * (1 - share_of c t s)"
    and "vals (adj st') r s k yr = vals (adj st) r s k yr * share_of c t s"
    and "stock_measure (mast st') s yr
          = stock_measure (mast st) s yr - stock_measure (adj st) s yr * (1 - share_of c t s)"
    and "stock_measure (adj st') s yr = stock_measure (adj st) s yr * share_of c t s"
    for r s k
    by (simp_all add: m a scale_down_def scale_retained_def)
  then show ?thesis using sh by (simp add: algebra_simps)
qed

theorem compete_adj_conservation_witness:
  "\<exists>st'. compete_adj [2020 \<mapsto> 1 / 2] [2020 \<mapsto> 0] 2020
       [''primary'', ''AIA_CZ1'', ''single family home'', ''electricity'', ''lighting'',
        ''existing'']
       ''Max adoption potential'' [2020, 2021] Map.empty Map.empty
       \<lparr> mast = \<lparr> stock_measure = (\<lambda>s y. 10), vals = (\<lambda>r s c y. 100) \<rparr>,
         adj = \<lparr> stock_measure = (\<lambda>s y. 4), vals = (\<lambda>r s c y. 40) \<rparr>,
         mast_brk_base = (\<lambda>y. 100), mast_brk_eff = (\<lambda>y. 100), mast_brk_save = (\<lambda>y. 0),
         secnd = \<lparr> original_total = [], original_comp = [], adjusted_total = [],
                   adjusted_comp = [] \<rparr> \<rparr> = Inr st'
     \<and> vals (mast st') Energy Total Baseline 2020 = 80
     \<and> vals (adj st') Energy Total Baseline 2020 = 20"
proof -
  let ?st = "\<lparr> mast = \<lparr> stock_measure = (\<lambda>s y. 10), vals = (\<lambda>r s c y. 100) \<rparr>,
         adj = \<lparr> stock_measure = (\<lambda>s y. 4), vals = (\<lambda>r s c y. 40) \<rparr>,
         mast_brk_base = (\<lambda>y. 100), mast_brk_eff = (\<lambda>y. 100), mast_brk_save = (\<lambda>y. 0),
         secnd = \<lparr> original_total = [], original_comp = [], adjusted_total = [],
                   adjusted_comp = [] \<rparr> \<rparr> :: adj_state"
  let ?key = "[''primary'', ''AIA_CZ1'', ''single family home'', ''electricity'', ''lighting'',
        ''existing'']"
  have sh: "adj_frac_shares ''Max adoption potential'' (py_str_tuple ?key)
        [2020 \<mapsto> 1 / 2] [2020 \<mapsto> 0] [2020, 2021] Map.empty Map.empty 2020
      = Inr (1 / 2, 1 / 2)"
    by code_simp
  have "\<exists>st'. compete_adj [2020 \<mapsto> 1 / 2] [2020 \<mapsto> 0] 2020 ?key
       ''Max adoption potential'' [2020, 2021] Map.empty Map.empty ?st = Inr st'"
    by (simp add: compete_adj_def sh record_secnd_def Let_def)
  then obtain st' where h: "compete_adj [2020 \<mapsto> 1 / 2] [2020 \<mapsto> 0] 2020 ?key
       ''Max adoption potential'' [2020, 2021] Map.empty Map.empty ?st = Inr st'"
    by blast
  from compete_adj_conservation[OF h] sh
  have "vals (mast st') Energy Total Baseline 2020 = 80"
    and "vals (adj st') Energy Total Baseline 2020 = 20"
    by (auto simp: share_of_def)
  with h show ?thesis by blast
qed

subsection \<open>Properties of the breakout partitioning\<close>

lemma walk_leaf_no_zero_division:
  "walk_leaf x k adjust_vals True \<noteq> Inl ZeroDivisionError"
  by (simp add: walk_leaf_def lookup_def py_truediv_def split: option.splits)

lemma walk_leaf_divide:
  "adjust_vals k = Some v \<Longrightarrow>
     walk_leaf x k adjust_vals True = Inr (if v = 0 then 0 else x / v)"
  by (simp add: walk_leaf_def lookup_def py_truediv_def)

lemma out_break_walk_no_zero_division:
  "out_break_walk d adjust_vals True \<noteq> Inl ZeroDivisionError"
proof (induction d adjust_vals True rule: out_break_walk.induct)
  case (1 adjust_vals)
  then show ?case by simp
next
  case (2 k i rest adjust_vals)
  then show ?case by (auto split: sum.splits)
next
  case (3 k x rest adjust_vals)
  then show ?case
    using walk_leaf_no_zero_division[of x k adjust_vals] by (auto split: sum.splits)
qed

lemma out_break_walk_fractions:
  "leaf_keys d \<subseteq> dom adjust_vals \<Longrightarrow>
     out_break_walk d adjust_vals True = Inr (spec_fractions (\<lambda>k. the (adjust_vals k)) d)"
proof (induction d adjust_vals True rule: out_break_walk.induct)
  case (1 adjust_vals)
  then show ?case by simp
next
  case (2 k i rest adjust_vals)
  then show ?case by simp
next
  case (3 k x rest adjust_vals)
  from "3.prems" obtain v where v: "adjust_vals k = Some v" by auto
  from "3.prems" have "leaf_keys rest \<subseteq> dom adjust_vals" by simp
  with 3 v show ?case by (simp add: walk_leaf_divide)
qed

text \<open>
  Claim C10 (breakout normalisation). With \<open>divide = True\<close>, as in the three calls of
  \<^verbatim>\<open>finalize_outputs\<close> (lines 3476-3497), \<open>out_break_walk\<close> never raises a division by
  zero; when every year of the breakout has a denominator it returns the structure in
  which each terminal value is divided by the denominator of its year, and is exactly 0
  where that denominator is 0.
\<close>

theorem out_break_walk_divide_total:
  "out_break_walk d adjust_vals True \<noteq> Inl ZeroDivisionError \<and>
   (leaf_keys d \<subseteq> dom adjust_vals \<longrightarrow>
      out_break_walk d adjust_vals True = Inr (spec_fractions (\<lambda>k. the (adjust_vals k)) d))"
  using out_break_walk_no_zero_division out_break_walk_fractions by blast

theorem out_break_walk_divide_total_witness:
  "leaf_keys [(''AIA CZ1'', Dict [(''Residential (New)'', Dict [(''Lighting'',
        Dict [(''2020'', Num 5), (''2021'', Num 3)])])])]
     \<subseteq> dom [''2020'' \<mapsto> 0, ''2021'' \<mapsto> 6]
   \<and> out_break_walk [(''AIA CZ1'', Dict [(''Residential (New)'', Dict [(''Lighting'',
        Dict [(''2020'', Num 5), (''2021'', Num 3)])])])]
       [''2020'' \<mapsto> 0, ''2021'' \<mapsto> 6] True
     = Inr [(''AIA CZ1'', Dict [(''Residential (New)'', Dict [(''Lighting'',
        Dict [(''2020'', Num 0), (''2021'', Num (1 / 2))])])])]"
  using out_break_walk_divide_total[of
      "[(''AIA CZ1'', Dict [(''Residential (New)'', Dict [(''Lighting'',
        Dict [(''2020'', Num 5), (''2021'', Num 3)])])])]"
      "[''2020'' \<mapsto> 0, ''2021'' \<mapsto> 6]"]
  by simp

subsection \<open>Properties of the commercial market shares\<close>

lemma collect_all_Inr:
  "(\<And>x. x \<in> set xs \<Longrightarrow> f x = Inr (g x)) \<Longrightarrow> collect (map f xs) = Inr (map g xs)"
  by (induction xs) auto

lemma set_on_mkt_costs: "set (on_mkt_costs tot_cost) = {c. Some c \<in> set tot_cost}"
  by (auto simp: on_mkt_costs_def split: option.splits)

lemma lowest_iff_min:
  assumes "c \<in> set costs"
  shows "c ! bin = Min ((\<lambda>c. c ! bin) ` set costs)
           \<longleftrightarrow> list_all (\<lambda>d. c ! bin \<le> d ! bin) costs"
proof -
  let ?S = "(\<lambda>c. c ! bin) ` set costs"
  have fin: "finite ?S" and mem: "c ! bin \<in> ?S"
    using assms by auto
  show ?thesis
  proof
    assume "c ! bin = Min ?S"
    then have "\<forall>v \<in> ?S. c ! bin \<le> v" using fin by simp
    then show "list_all (\<lambda>d. c ! bin \<le> d ! bin) costs" by (simp add: list_all_iff)
  next
    assume "list_all (\<lambda>d. c ! bin \<le> d ! bin) costs"
    then have "\<And>v. v \<in> ?S \<Longrightarrow> c ! bin \<le> v" by (auto simp: list_all_iff)
    then have "Min ?S = c ! bin" using fin mem by (intro Min_eqI) auto
    then show "c ! bin = Min ?S" by simp
  qed
qed

lemma min_val_ecms_winners:
  "filter (\<lambda>x. case tot_cost ! x of None \<Rightarrow> False
        | Some c \<Rightarrow> c ! bin = Min ((\<lambda>c. c ! bin) ` set (on_mkt_costs tot_cost)))
      [0..<length tot_cost]
    = spec_bin_winners tot_cost bin"
  unfolding spec_bin_winners_def
proof (rule filter_cong[OF refl])
  fix x assume "x \<in> set [0..<length tot_cost]"
  then have x: "x < length tot_cost" by simp
  show "(case tot_cost ! x of None \<Rightarrow> False
        | Some c \<Rightarrow> c ! bin = Min ((\<lambda>c. c ! bin) ` set (on_mkt_costs tot_cost)))
      = (case tot_cost ! x of None \<Rightarrow> False
        | Some c \<Rightarrow> list_all (\<lambda>d. c ! bin \<le> d ! bin) (on_mkt_costs tot_cost))"
  proof (cases "tot_cost ! x")
    case None
    then show ?thesis by simp
  next
    case (Some c)
    then have "c \<in> set (on_mkt_costs tot_cost)"
      using x by (auto simp: set_on_mkt_costs dest: nth_mem)
    then show ?thesis using Some by (simp add: lowest_iff_min)
  qed
qed

lemma com_bin_frac_spec:
  assumes "\<forall>c \<in> set (on_mkt_costs tot_cost). length c = nbins"
    and "length mkt_dists = nbins"
    and "ind < length tot_cost" and "tot_cost ! ind = Some own" and "bin < nbins"
  shows "com_bin_frac tot_cost mkt_dists ind bin = Inr (spec_bin_frac tot_cost mkt_dists ind bin)"
proof -
  have own: "own \<in> set (on_mkt_costs tot_cost)"
    using assms(3,4) by (auto simp: set_on_mkt_costs dest: nth_mem)
  have nolen: "\<not> (\<exists>c \<in> set (on_mkt_costs tot_cost). length c \<le> bin)"
    using assms(1,5) by auto
  have win: "ind \<in> set (spec_bin_winners tot_cost bin)
      \<longleftrightarrow> own ! bin = Min ((\<lambda>c. c ! bin) ` set (on_mkt_costs tot_cost))"
    using assms(3,4) own by (simp add: spec_bin_winners_def lowest_iff_min)
  show ?thesis
    using assms(2,4,5) nolen win
    by (simp add: com_bin_frac_def Let_def min_val_ecms_winners spec_bin_frac_def)
qed

lemma compete_com_share_spec:
  assumes "\<forall>c \<in> set (on_mkt_costs tot_cost). length c = nbins"
    and "length mkt_dists = nbins"
    and "ind < length tot_cost" and "tot_cost ! ind = Some own"
  shows "compete_com_share tot_cost mkt_dists ind
           = Inr (spec_com_share tot_cost mkt_dists nbins ind)"
proof -
  have own: "own \<in> set (on_mkt_costs tot_cost)"
    using assms(3,4) by (auto simp: set_on_mkt_costs dest: nth_mem)
  then have len: "length own = nbins" using assms(1) by simp
  have bins: "com_bin_frac tot_cost mkt_dists ind bin
      = Inr (spec_bin_frac tot_cost mkt_dists ind bin)" if "bin < nbins" for bin
    using com_bin_frac_spec[OF assms that] .
  then have "collect (map (com_bin_frac tot_cost mkt_dists ind) [0..<nbins])
      = Inr (map (spec_bin_frac tot_cost mkt_dists ind) [0..<nbins])"
    by (intro collect_all_Inr) simp
  then show ?thesis
    using assms(4) len by (simp add: compete_com_share_def com_mkt_frac_def spec_com_share_def)
qed

text \<open>
  Claim C7 (commercial market-share model). For a measure that is on the market in the
  year, with one cost per discount-rate bin for every measure on the market: in every bin
  the measure receives the bin's population fraction divided by the number of measures
  that share the lowest total annualized cost if it is one of them, and 0 otherwise; its
  market share for the year is the sum of these bin fractions.
\<close>

theorem com_mkt_frac_lowest_cost:
  assumes "\<forall>c \<in> set (on_mkt_costs tot_cost). length c = nbins"
    and "length mkt_dists = nbins"
    and "ind < length tot_cost" and "tot_cost ! ind = Some own"
  shows "(\<forall>bin < nbins.
            com_bin_frac tot_cost mkt_dists ind bin
              = Inr (if ind \<in> set (spec_bin_winners tot_cost bin)
                     then mkt_dists ! bin / real (length (spec_bin_winners tot_cost bin))
                     else 0)) \<and>
         compete_com_share tot_cost mkt_dists ind
           = Inr (spec_com_share tot_cost mkt_dists nbins ind)"
  using com_bin_frac_spec[OF assms] compete_com_share_spec[OF assms]
  by (simp add: spec_bin_frac_def)

theorem com_mkt_frac_lowest_cost_witness:
  "compete_com_share [Some [10, 20], Some [10, 30], None] [6 / 10, 4 / 10] 0 = Inr (7 / 10) \<and>
   com_bin_frac [Some [10, 20], Some [10, 30], None] [6 / 10, 4 / 10] 0 0 = Inr (3 / 10)"
proof -
  have h: "\<forall>c \<in> set (on_mkt_costs [Some [10, 20], Some [10, 30], None]). length c = 2"
    by (simp add: on_mkt_costs_def)
  have v: "spec_com_share [Some [10, 20], Some [10, 30], None] [6 / 10, 4 / 10] 2 0 = 7 / 10"
    by code_simp
  have w: "spec_bin_winners [Some [10, 20], Some [10, 30], None] 0 = [0, 1]"
    by code_simp
  from com_mkt_frac_lowest_cost[OF h, of "[6 / 10, 4 / 10]" 0 "[10, 20]"] v w
  show ?thesis by simp
qed

text \<open>The same holds sample by sample when the costs are arrays (lines 1914-1953).\<close>

lemma com_mkt_frac_array_spec:
  assumes "\<And>i. i < length_array \<Longrightarrow>
             \<forall>c \<in> set (on_mkt_costs (map (map_option (\<lambda>c. c ! i)) tot_cost)). length c = nbins"
    and "length mkt_dists = nbins"
    and "ind < length tot_cost" and "tot_cost ! ind = Some own"
  shows "com_mkt_frac_array tot_cost mkt_dists length_array ind
           = Inr (map (\<lambda>i. spec_com_share (map (map_option (\<lambda>c. c ! i)) tot_cost)
                              mkt_dists nbins ind) [0..<length_array])"
  unfolding com_mkt_frac_array_def
proof (rule collect_all_Inr)
  fix i assume "i \<in> set [0..<length_array]"
  then have i: "i < length_array" by simp
  let ?tc = "map (map_option (\<lambda>c. c ! i)) tot_cost"
  have "ind < length ?tc" and "?tc ! ind = Some (own ! i)"
    using assms(3,4) by simp_all
  from compete_com_share_spec[OF assms(1)[OF i] assms(2) this]
  have "compete_com_share ?tc mkt_dists ind = Inr (spec_com_share ?tc mkt_dists nbins ind)" .
  moreover have "?tc ! ind \<noteq> None" using \<open>?tc ! ind = Some (own ! i)\<close> by simp
  ultimately show "com_mkt_frac ?tc mkt_dists ind = Inr (spec_com_share ?tc mkt_dists nbins ind)"
    by (simp add: compete_com_share_def)
qed

subsection \<open>Properties of the sub-market redistribution\<close>











subsection \<open>Properties of the residential market shares\<close>

lemma sum_wt_max:
  "sum_wt m yr = max (- 500) (unit_cost_s_in m yr * b1 m yr + unit_cost_e_in m yr * b2 m yr)"
  by (simp add: sum_wt_def Let_def max_def)

lemma sum_wt_guard_array_map:
  "sum_wt_guard_array s = map (max (- 500)) s"
proof (cases "\<exists>x \<in> set s. x < - 500")
  case True
  then show ?thesis by (auto simp: sum_wt_guard_array_def max_def)
next
  case False
  then have "map (max (- 500)) s = map (\<lambda>x. x) s"
    by (intro map_cong) (auto simp: max_def)
  then show ?thesis using False by (simp add: sum_wt_guard_array_def)
qed

lemma foldl_on_mkt:
  "foldl (\<lambda>tot m. if P m then tot + f m else tot) (a::real) ms
     = a + sum_list (map f (filter P ms))"
  by (induction ms arbitrary: a) auto

lemma mkt_fracs_tot_spec: "mkt_fracs_tot ms yr = spec_on_mkt_total ms yr"
  by (simp add: mkt_fracs_tot_def spec_on_mkt_total_def foldl_on_mkt sum_wt_max)

lemma years_on_mkt_all_iff:
  "yr \<in> set (years_on_mkt_all ms) \<longleftrightarrow> (\<exists>m \<in> set ms. yr \<in> set (yrs_on_mkt m))"
  by (auto simp: years_on_mkt_all_def)

lemma sum_list_exp_pos:
  "xs \<noteq> [] \<Longrightarrow> 0 < sum_list (map (\<lambda>m. exp (g m :: real)) xs)"
proof (induction xs)
  case Nil
  then show ?case by simp
next
  case (Cons a xs)
  have "0 \<le> sum_list (map (\<lambda>m. exp (g m)) xs)"
    by (intro sum_list_nonneg) auto
  moreover have "0 < exp (g a)" by simp
  ultimately show ?case by (simp add: add_pos_nonneg)
qed

lemma spec_on_mkt_total_pos:
  "yr \<in> set (years_on_mkt_all ms) \<Longrightarrow> 0 < spec_on_mkt_total ms yr"
proof -
  assume "yr \<in> set (years_on_mkt_all ms)"
  then have "filter (\<lambda>m. yr \<in> set (yrs_on_mkt m)) ms \<noteq> []"
    by (auto simp: years_on_mkt_all_iff filter_empty_conv)
  then show ?thesis unfolding spec_on_mkt_total_def by (rule sum_list_exp_pos)
qed

lemma sum_list_shares:
  "sum_list (map (\<lambda>m. if P m then f m / t else (0::real)) ms)
     = sum_list (map f (filter P ms)) / t"
  by (induction ms) (auto simp: add_divide_distrib)

lemma compete_res_mkt_fracs_sum:
  assumes "yr \<in> set (years_on_mkt_all ms)"
  shows "sum_list (compete_res_mkt_fracs ms yr) = 1"
proof -
  have pos: "0 < spec_on_mkt_total ms yr" using assms by (rule spec_on_mkt_total_pos)
  have "compete_res_mkt_fracs ms yr
      = map (\<lambda>m. if yr \<in> set (yrs_on_mkt m)
                  then exp (sum_wt m yr) / spec_on_mkt_total ms yr else 0) ms"
    using assms by (simp add: compete_res_mkt_fracs_def mkt_fracs_tot_spec)
  then have "sum_list (compete_res_mkt_fracs ms yr)
      = sum_list (map (\<lambda>m. exp (sum_wt m yr)) (filter (\<lambda>m. yr \<in> set (yrs_on_mkt m)) ms))
          / spec_on_mkt_total ms yr"
    by (simp add: sum_list_shares)
  also have "\<dots> = spec_on_mkt_total ms yr / spec_on_mkt_total ms yr"
    by (simp add: spec_on_mkt_total_def sum_wt_max)
  finally show ?thesis using pos by simp
qed

text \<open>
  Claim C2 (residential market-share normalisation). In a year in which at least one
  competing measure is on the market, the market fractions of the competing measures sum
  to 1: a measure on the market gets the exponential of its weighted cost, guarded below
  at -500, divided by the sum of these exponentials over the measures on the market, and a
  measure off the market gets 0. In a year in which no competing measure is on the market
  each of the \<open>n\<close> measures gets \<open>1 / n\<close>. (\<open>sum_wt_guard_array_map\<close>: on an array of
  samples the guard is the same, element by element.)
\<close>

theorem compete_res_mkt_fracs_normalized:
  "(yr \<in> set (years_on_mkt_all ms) \<longrightarrow>
      sum_list (compete_res_mkt_fracs ms yr) = 1 \<and>
      (\<forall>ind < length ms.
         compete_res_mkt_fracs ms yr ! ind =
           (if yr \<in> set (yrs_on_mkt (ms ! ind))
            then exp (max (- 500) (unit_cost_s_in (ms ! ind) yr * b1 (ms ! ind) yr
                                   + unit_cost_e_in (ms ! ind) yr * b2 (ms ! ind) yr))
                 / spec_on_mkt_total ms yr
            else 0))) \<and>
   (yr \<notin> set (years_on_mkt_all ms) \<longrightarrow>
      (\<forall>ind < length ms. compete_res_mkt_fracs ms yr ! ind = 1 / real (length ms)))"
proof (intro conjI impI allI)
  assume "yr \<in> set (years_on_mkt_all ms)"
  then show "sum_list (compete_res_mkt_fracs ms yr) = 1" by (rule compete_res_mkt_fracs_sum)
next
  fix ind
  assume "yr \<in> set (years_on_mkt_all ms)" and "ind < length ms"
  then show "compete_res_mkt_fracs ms yr ! ind =
           (if yr \<in> set (yrs_on_mkt (ms ! ind))
            then exp (max (- 500) (unit_cost_s_in (ms ! ind) yr * b1 (ms ! ind) yr
                                   + unit_cost_e_in (ms ! ind) yr * b2 (ms ! ind) yr))
                 / spec_on_mkt_total ms yr
            else 0)"
    by (simp add: compete_res_mkt_fracs_def mkt_fracs_tot_spec sum_wt_max)
next
  fix ind
  assume no: "yr \<notin> set (years_on_mkt_all ms)" and ind: "ind < length ms"
  then have "yr \<notin> set (yrs_on_mkt (ms ! ind))"
    by (auto simp: years_on_mkt_all_iff)
  then show "compete_res_mkt_fracs ms yr ! ind = 1 / real (length ms)"
    using no ind by (simp add: compete_res_mkt_fracs_def)
qed

theorem compete_res_mkt_fracs_normalized_witness:
  "2020 \<in> set (years_on_mkt_all
      [\<lparr>yrs_on_mkt = [2020], unit_cost_s_in = (\<lambda>y. 1000), unit_cost_e_in = (\<lambda>y. 50),
         b1 = (\<lambda>y. - 1 / 100), b2 = (\<lambda>y. - 1 / 10)\<rparr>,
       \<lparr>yrs_on_mkt = [2020, 2022], unit_cost_s_in = (\<lambda>y. 100000), unit_cost_e_in = (\<lambda>y. 40),
         b1 = (\<lambda>y. - 1 / 100), b2 = (\<lambda>y. - 1 / 10)\<rparr>]) \<and>
   sum_list (compete_res_mkt_fracs
      [\<lparr>yrs_on_mkt = [2020], unit_cost_s_in = (\<lambda>y. 1000), unit_cost_e_in = (\<lambda>y. 50),
         b1 = (\<lambda>y. - 1 / 100), b2 = (\<lambda>y. - 1 / 10)\<rparr>,
       \<lparr>yrs_on_mkt = [2020, 2022], unit_cost_s_in = (\<lambda>y. 100000), unit_cost_e_in = (\<lambda>y. 40),
         b1 = (\<lambda>y. - 1 / 100), b2 = (\<lambda>y. - 1 / 10)\<rparr>] 2020) = 1 \<and>
   2021 \<notin> set (years_on_mkt_all
      [\<lparr>yrs_on_mkt = [2020], unit_cost_s_in = (\<lambda>y. 1000), unit_cost_e_in = (\<lambda>y. 50),
         b1 = (\<lambda>y. - 1 / 100), b2 = (\<lambda>y. - 1 / 10)\<rparr>,
       \<lparr>yrs_on_mkt = [2020, 2022], unit_cost_s_in = (\<lambda>y. 100000), unit_cost_e_in = (\<lambda>y. 40),
         b1 = (\<lambda>y. - 1 / 100), b2 = (\<lambda>y. - 1 / 10)\<rparr>]) \<and>
   compete_res_mkt_fracs
      [\<lparr>yrs_on_mkt = [2020], unit_cost_s_in = (\<lambda>y. 1000), unit_cost_e_in = (\<lambda>y. 50),
         b1 = (\<lambda>y. - 1 / 100), b2 = (\<lambda>y. - 1 / 10)\<rparr>,
       \<lparr>yrs_on_mkt = [2020, 2022], unit_cost_s_in = (\<lambda>y. 100000), unit_cost_e_in = (\<lambda>y. 40),
         b1 = (\<lambda>y. - 1 / 100), b2 = (\<lambda>y. - 1 / 10)\<rparr>] 2021 ! 0 = 1 / 2"
proof -
  let ?ms = "[\<lparr>yrs_on_mkt = [2020], unit_cost_s_in = (\<lambda>y. 1000), unit_cost_e_in = (\<lambda>y. 50),
         b1 = (\<lambda>y. - 1 / 100), b2 = (\<lambda>y. - 1 / 10)\<rparr>,
       \<lparr>yrs_on_mkt = [2020, 2022], unit_cost_s_in = (\<lambda>y. 100000), unit_cost_e_in = (\<lambda>y. 40),
         b1 = (\<lambda>y. - 1 / 100), b2 = (\<lambda>y. - 1 / 10)\<rparr>] :: res_measure list"
  have a: "2020 \<in> set (years_on_mkt_all ?ms)"
    by (simp add: years_on_mkt_all_def)
  have b: "2021 \<notin> set (years_on_mkt_all ?ms)"
    by (simp add: years_on_mkt_all_def)
  from compete_res_mkt_fracs_normalized[of 2020 ?ms] a
  have s: "sum_list (compete_res_mkt_fracs ?ms 2020) = 1" by blast
  from compete_res_mkt_fracs_normalized[of 2021 ?ms] b
  have e: "compete_res_mkt_fracs ?ms 2021 ! 0 = 1 / 2" by simp
  from a b s e show ?thesis by blast
qed

subsection \<open>Properties of the order of competition\<close>










subsection \<open>Properties of the lifetime floor\<close>

lemma py_round_ge_1: "1 \<le> x \<Longrightarrow> 1 \<le> py_round x"
proof -
  assume "1 \<le> x"
  then have "1 \<le> \<lfloor>x\<rfloor>" by simp
  then show ?thesis by (auto simp: py_round_def Let_def)
qed

lemma lifetime_floor_point: "lifetime_floor (Point x) = Inr (Point (max 1 x))"
  by (simp add: lifetime_floor_def max_def)

lemma metric_update_lifetimes_point:
  "\<exists>lb lm. metric_update_lifetimes (Point b) (Point m) = Inr [(lb, lm)] \<and> 1 \<le> lb \<and> 1 \<le> lm"
proof -
  have "1 \<le> py_round (max 1 b)" and "1 \<le> py_round (max 1 m)"
    by (rule py_round_ge_1, simp)+
  then show ?thesis
    by (simp add: metric_update_lifetimes_def lifetime_floor_point)
qed

lemma lifetime_floor_samples:
  "lifetime_floor (Samples xs) = (if \<exists>x \<in> set xs. x \<noteq> 0 then Inr (Samples xs) else Inl TypeError)"
  by (simp add: lifetime_floor_def)

lemma metric_update_lifetimes_samples:
  assumes "\<exists>x \<in> set ms. x \<noteq> 0"
  shows "metric_update_lifetimes (Point b) (Samples ms) =
    Inr (map (\<lambda>m. (py_round (max 1 b), py_round m)) ms)"
  using assms by (simp add: metric_update_lifetimes_def lifetime_floor_point lifetime_floor_samples)

lemma metric_update_lifetimes_base_samples:
  "metric_update_lifetimes (Samples bs) life_meas = Inl TypeError"
  by (simp add: metric_update_lifetimes_def lifetime_floor_def split: lifetime.splits sum.splits)

text \<open>
  Claim C8 (lifetime floor). A point-valued baseline or measure lifetime below 1 is set to
  1 without an error (\<open>lifetime_floor_point\<close>, \<open>metric_update_lifetimes_point\<close>), and the
  samples of an array-valued measure lifetime that has an element other than zero reach
  \<open>metric_update\<close> one by one (\<open>metric_update_lifetimes_samples\<close>), where line 986 floors
  each at 1. The claim that every array-valued lifetime is clamped with no error raised
  fails: a lifetime array whose elements are all zero, every one of them below 1, raises
  TypeError at line 617 (baseline) or 624 (measure), where the tuple
  \<^verbatim>\<open>numpy.where(life)\<close> is compared with 1; and an array-valued baseline lifetime with an
  element below 1 is not clamped either, the run ends with the TypeError of
  \<^verbatim>\<open>round(life_base)\<close> at line 800 or 836.
\<close>

theorem lifetime_floor_array_divergence:
  "lifetime_floor (Samples [0, 0]) = Inl TypeError \<and>
   metric_update_lifetimes (Point 10) (Samples [0, 0]) = Inl TypeError \<and>
   metric_update_lifetimes (Samples [0, 0]) (Point 10) = Inl TypeError \<and>
   metric_update_lifetimes (Samples [4 / 10, 3]) (Point 10) = Inl TypeError"
  by code_simp

subsection \<open>Properties of the sentinels for non-finite results\<close>

lemma com_rates_loop_Inr:
  "com_rates_loop npv_fl s e c rates (us, ue, uc) = Inr (us', ue', uc') \<Longrightarrow>
     (\<forall>tps \<in> set rates. isfinite (npv_fl tps s) \<and> isfinite (npv_fl tps e) \<and> isfinite (npv_fl tps c)) \<and>
     us' = us @ map (\<lambda>tps. npv_fl tps s) rates \<and>
     ue' = ue @ map (\<lambda>tps. npv_fl tps e) rates \<and>
     uc' = uc @ map (\<lambda>tps. npv_fl tps c) rates"
proof (induction rates arbitrary: us ue uc)
  case Nil
  then show ?case by simp
next
  case (Cons tps rates)
  from Cons.prems have fin: "isfinite (npv_fl tps s)" "isfinite (npv_fl tps e)" "isfinite (npv_fl tps c)"
    and rest: "com_rates_loop npv_fl s e c rates
       (us @ [npv_fl tps s], ue @ [npv_fl tps e], uc @ [npv_fl tps c]) = Inr (us', ue', uc')"
    by (auto simp: Let_def split: if_splits)
  from Cons.IH[OF rest] fin show ?case by simp
qed

lemma com_rates_loop_Inl:
  "com_rates_loop npv_fl s e c rates (us, ue, uc) = Inl err \<Longrightarrow>
     err = ValueError \<and>
     (\<exists>tps \<in> set rates. \<not> isfinite (npv_fl tps s) \<or> \<not> isfinite (npv_fl tps e) \<or> \<not> isfinite (npv_fl tps c))"
proof (induction rates arbitrary: us ue uc)
  case Nil
  then show ?case by simp
next
  case (Cons tps rates)
  show ?case
  proof (cases "isfinite (npv_fl tps s) \<and> isfinite (npv_fl tps e) \<and> isfinite (npv_fl tps c)")
    case True
    with Cons.prems have "com_rates_loop npv_fl s e c rates
       (us @ [npv_fl tps s], ue @ [npv_fl tps e], uc @ [npv_fl tps c]) = Inl err"
      by (simp add: Let_def)
    from Cons.IH[OF this] show ?thesis by auto
  next
    case False
    with Cons.prems show ?thesis by (auto simp: Let_def)
  qed
qed

text \<open>The three commercial unit costs: all 999, or the finite net present values.\<close>

lemma com_unit_costs_cases:
  "com_unit_costs npv_fl s e c =
     (if \<forall>tps \<in> set com_timeprefs_rates.
           isfinite (npv_fl tps s) \<and> isfinite (npv_fl tps e) \<and> isfinite (npv_fl tps c)
      then (ComRatesFl (map (\<lambda>tps. npv_fl tps s) com_timeprefs_rates),
            ComRatesFl (map (\<lambda>tps. npv_fl tps e) com_timeprefs_rates),
            ComRatesFl (map (\<lambda>tps. npv_fl tps c) com_timeprefs_rates))
      else (ComSentinelFl, ComSentinelFl, ComSentinelFl))"
proof (cases "com_rates_loop npv_fl s e c com_timeprefs_rates ([], [], [])")
  case (Inl err)
  from com_rates_loop_Inl[OF Inl] Inl show ?thesis
    by (auto simp: com_unit_costs_def)
next
  case (Inr r)
  obtain us ue uc where r: "r = (us, ue, uc)" by (cases r) auto
  from com_rates_loop_Inr[OF Inr[unfolded r]] Inr r show ?thesis
    by (auto simp: com_unit_costs_def)
qed




lemma metric_update_fl_no_consumer:
  assumes "metric_update_fl npv_fl irr_fl m life_base life_meas scost_base scost_meas_delt
             esave ecostsave csave ccostsave scost_meas ecost_meas ccost_meas = Inr out"
    and "\<not> update_results_consumer_metrics m"
  shows "unit_cost_s_com_fl out = None \<and> unit_cost_e_com_fl out = None \<and>
         unit_cost_c_com_fl out = None \<and> irr_e_fl out = None \<and> irr_ec_fl out = None"
  using assms unfolding metric_update_fl_def Let_def
  by (auto split: sum.splits prod.splits if_splits)

lemma metric_update_fl_returns:
  assumes "\<not> update_results_consumer_metrics m"
    and "lighting_gain_applies m life_base life_meas \<longrightarrow> life_base \<noteq> 0"
  shows "\<exists>out. metric_update_fl npv_fl irr_fl m life_base life_meas scost_base scost_meas_delt
            esave ecostsave csave ccostsave scost_meas ecost_meas ccost_meas = Inr out"
  using assms unfolding metric_update_fl_def Let_def added_stockcost_gain_yrs_def
  by (auto split: prod.splits)

lemma metric_update_fl_finite_npv:
  "metric_update_fl (\<lambda>rate cashflows. Fin (npv rate cashflows))
       (\<lambda>cashflows. case irr cashflows of None \<Rightarrow> Inr NaN | Some r \<Rightarrow> Inr (Fin r))
       m life_base life_meas scost_base scost_meas_delt esave ecostsave csave ccostsave
       scost_meas ecost_meas ccost_meas =
   map_sum id metrics_to_fl
     (metric_update irr m life_base life_meas scost_base scost_meas_delt esave ecostsave
        csave ccostsave scost_meas ecost_meas ccost_meas)"
proof -
  have irr: "irr_or_999 (\<lambda>cashflows. case irr cashflows of None \<Rightarrow> Inr NaN | Some r \<Rightarrow> Inr (Fin r)) c
      = Inr (Fin (irr_or_sentinel irr c))" for c
    by (simp add: irr_or_999_def irr_or_sentinel_def isfinite_def split: option.splits)
  have com: "com_unit_costs (\<lambda>rate cashflows. Fin (npv rate cashflows)) s e c =
      (ComRatesFl (map (\<lambda>tps. Fin (npv tps s)) com_timeprefs_rates),
       ComRatesFl (map (\<lambda>tps. Fin (npv tps e)) com_timeprefs_rates),
       ComRatesFl (map (\<lambda>tps. Fin (npv tps c)) com_timeprefs_rates))" for s e c
    by (simp add: com_unit_costs_cases isfinite_def)
  show ?thesis
    unfolding metric_update_fl_def metric_update_def Let_def irr com
    by (auto simp: metrics_to_fl_def com_fl_def comp_def split: sum.splits prod.splits)
qed






end
